theory Spec2Isabelle
  imports Complex_Main
begin

section \<open>Data model\<close>

text \<open>
  Shallow embedding of the simulation core of the gesture-driven firework display
  (\<^verbatim>\<open>src/components/FireworkScene.tsx\<close>) and of the session controller
  (\<^verbatim>\<open>src/App.tsx\<close>). JavaScript numbers that carry fractions are modelled as
  \<^typ>\<open>real\<close> (rounding of the 64-bit and 32-bit floats is not modelled); the three
  statistics counters only ever hold integers and are modelled as \<^typ>\<open>int\<close>.
\<close>

text \<open>The enum \<^verbatim>\<open>Gesture\<close> of the types module.\<close>

datatype Gesture =
  Gesture_None | Closed_Fist | Open_Palm | Victory | Pointing_Up | Thumb_Up | Thumb_Down | Shaka

text \<open>\<^verbatim>\<open>THREE.Vector3\<close>, as its three coordinates.\<close>

datatype Vector3 = Vector3 (vx: real) (vy: real) (vz: real)

record HandData =
  gesture :: Gesture
  hand_velocity :: real
  hand_position :: Vector3

record GameStats =
  exploded :: int
  consumed :: int
  coins :: int

text \<open>One entry of \<^verbatim>\<open>particlesData\<close>.\<close>

record particle =
  active :: bool
  life :: real
  velocity :: Vector3
  decay :: real
  initialSize :: real

text \<open>
  The entity records. A mesh is represented by the part of it the core reads and writes:
  its position (and, for a coin, its rotation).
\<close>

record projectile =
  proj_id :: real
  proj_position :: Vector3
  proj_velocity :: Vector3
  proj_color :: nat

record envelope =
  env_id :: real
  env_position :: Vector3
  isGolden :: bool

record coin =
  coin_position :: Vector3
  coin_rotation :: Vector3
  coin_velocity :: Vector3
  rotSpeed :: "real \<times> real"

text \<open>
  The two services of the three.js library the core calls on colours. The library is not
  part of the repository, so they are parameters of the model:
  \<^item> \<open>Color hex\<close> is the triple \<open>(r, g, b)\<close> of \<^verbatim>\<open>new THREE.Color(hex)\<close>;
  \<^item> \<open>hueShiftedHex base shift\<close> is
    \<^verbatim>\<open>new THREE.Color().setHSL(hsl.h + shift, hsl.s, 0.6).getHex()\<close> where \<^verbatim>\<open>hsl\<close> is the
    HSL form of \<^verbatim>\<open>new THREE.Color(base)\<close>.
\<close>

record three =
  Color :: "nat \<Rightarrow> Vector3"
  hueShiftedHex :: "nat \<Rightarrow> real \<Rightarrow> nat"

text \<open>
  The refs of the component, as one state. \<open>sceneRef\<close> and \<open>rendererRef\<close> record whether
  the object exists; the camera is represented by its projection to normalised device
  coordinates (\<^verbatim>\<open>Vector3.project(camera)\<close>), \<open>None\<close> while it does not exist.
  \<open>random\<close> is the sequence of values that \<^verbatim>\<open>Math.random()\<close> returns to the calls of this
  component and \<open>drawn\<close> counts the calls made so far. \<open>emitted\<close> lists the snapshots
  handed to the statistics callback, latest first.
\<close>

record scene =
  projectiles :: "projectile list"
  envelopes :: "envelope list"
  coinsRef :: "coin list"
  particlePositions :: "real list"
  particleColors :: "real list"
  particleSizes :: "real list"
  particlesData :: "particle list"
  nextSpawnTime :: real
  gameState :: GameStats
  statsDirty :: bool
  pendingGesture :: Gesture
  stableGesture :: Gesture
  gestureFrameCount :: nat
  handDataRef :: "HandData option"
  isGameActiveRef :: bool
  sceneRef :: bool
  cameraRef :: "(Vector3 \<Rightarrow> Vector3) option"
  rendererRef :: bool
  THREE :: three
  random :: "nat \<Rightarrow> real"
  drawn :: nat
  emitted :: "GameStats list"

section \<open>Constants\<close>

definition MAX_PARTICLES :: nat where
  "MAX_PARTICLES = 4000"

definition SILVER_COLOR :: nat where
  "SILVER_COLOR = 12632256"

definition GOLD_COLOR :: nat where
  "GOLD_COLOR = 16766720"

definition ENVELOPE_RED :: nat where
  "ENVELOPE_RED = 14222377"

definition COLOR_PALETTE :: "nat list" where
  "COLOR_PALETTE = [16711744, 65344, 16639, 16776960, 16711935, 65535, 16755200]"

section \<open>Random numbers and the particle pool\<close>

text \<open>One call of \<^verbatim>\<open>Math.random()\<close>: the next value of the sequence.\<close>

definition Math_random :: "scene \<Rightarrow> real \<times> scene" where
  "Math_random st = (random st (drawn st), st\<lparr>drawn := Suc (drawn st)\<rparr>)"

text \<open>
  The search loop of \<^verbatim>\<open>spawnParticle\<close>: \<open>i\<close> runs from 0 below \<open>MAX_PARTICLES\<close>, the
  first inactive slot at \<open>(start + i) mod MAX_PARTICLES\<close> is the result, and \<open>None\<close>
  stands for \<^verbatim>\<open>foundIndex === -1\<close>.
\<close>

function findInactive :: "particle list \<Rightarrow> nat \<Rightarrow> nat \<Rightarrow> nat option" where
  "findInactive pd start i =
     (if i < MAX_PARTICLES then
        (let idx = (start + i) mod MAX_PARTICLES in
         if \<not> active (pd ! idx) then Some idx else findInactive pd start (i + 1))
      else None)"
  by pat_completeness auto
termination
  by (relation "measure (\<lambda>(pd, start, i). MAX_PARTICLES - i)") auto

declare findInactive.simps [simp del]

definition spawnParticle ::
  "Vector3 \<Rightarrow> nat \<Rightarrow> Vector3 \<Rightarrow> real \<Rightarrow> real \<Rightarrow> real \<Rightarrow> scene \<Rightarrow> scene" where
  "spawnParticle pos colorHex vel life0 decay0 size0 st0 =
     (let (r, st) = Math_random st0;
          start = nat \<lfloor>r * real MAX_PARTICLES\<rfloor>
      in case findInactive (particlesData st) start 0 of
           None \<Rightarrow> st
         | Some foundIndex \<Rightarrow>
             (let col = Color (THREE st) colorHex in
              st\<lparr>particlePositions :=
                    (particlePositions st)
                      [foundIndex * 3 := vx pos, foundIndex * 3 + 1 := vy pos,
                       foundIndex * 3 + 2 := vz pos],
                  particleColors :=
                    (particleColors st)
                      [foundIndex * 3 := vx col, foundIndex * 3 + 1 := vy col,
                       foundIndex * 3 + 2 := vz col],
                  particlesData :=
                    (particlesData st)
                      [foundIndex := \<lparr>active = True, life = life0, velocity = vel,
                                       decay = decay0, initialSize = size0\<rparr>],
                  particleSizes := (particleSizes st)[foundIndex := size0]\<rparr>))"

section \<open>Projectiles and explosions\<close>

definition spawnProjectile :: "scene \<Rightarrow> scene" where
  "spawnProjectile st0 =
     (if \<not> sceneRef st0 then st0
      else
        (let (r1, st1) = Math_random st0;
             color = COLOR_PALETTE ! nat \<lfloor>r1 * real (length COLOR_PALETTE)\<rfloor>;
             (r2, st2) = Math_random st1;
             (r3, st3) = Math_random st2;
             (r4, st4) = Math_random st3
         in st4\<lparr>projectiles := projectiles st4 @
               [\<lparr>proj_id = r3,
                 proj_position = Vector3 ((r2 - 0.5) * 20) (- 10) 0,
                 proj_velocity = Vector3 0 ((0.8 + r4 * 0.4) * 0.7) 0,
                 proj_color = color\<rparr>]\<rparr>))"

text \<open>
  The velocity of one burst particle, from the samples \<open>u\<close>, \<open>v\<close> and the speed sample
  \<open>r\<close> (the lines from \<^verbatim>\<open>theta\<close> to \<^verbatim>\<open>velZ\<close> of \<^verbatim>\<open>createExplosion\<close>).
\<close>

definition burstSpeed :: "real \<Rightarrow> real" where
  "burstSpeed r = 0.2 + r * 0.3"

definition burstVelocity :: "real \<Rightarrow> real \<Rightarrow> real \<Rightarrow> Vector3" where
  "burstVelocity u v r =
     (let theta = 2 * pi * u;
          phi = arccos (2 * v - 1);
          speed = burstSpeed r;
          velX = speed * sin phi * cos theta;
          velY = speed * sin phi * sin theta;
          velZ = speed * cos phi
      in Vector3 velX velY velZ)"

text \<open>One iteration of the loop of \<^verbatim>\<open>createExplosion\<close>.\<close>

definition burstParticle :: "Vector3 \<Rightarrow> nat \<Rightarrow> scene \<Rightarrow> scene" where
  "burstParticle position baseColor st0 =
     (let (r1, st1) = Math_random st0;
          hueShift = (r1 - 0.5) * 0.15;
          color = hueShiftedHex (THREE st1) baseColor hueShift;
          (u, st2) = Math_random st1;
          (v, st3) = Math_random st2;
          (r4, st4) = Math_random st3;
          (r5, st5) = Math_random st4;
          size0 = (0.8 + r5 * 0.8) * 3.0;
          (r6, st6) = Math_random st5;
          (r7, st7) = Math_random st6
      in spawnParticle position color (burstVelocity u v r4)
           (1.0 + r6 * 0.5) (0.01 + r7 * 0.01) size0 st7)"

text \<open>The loop \<^verbatim>\<open>for (i = 0; i < count; i++)\<close>; the argument is the number of iterations left.\<close>

fun burstLoop :: "nat \<Rightarrow> Vector3 \<Rightarrow> nat \<Rightarrow> scene \<Rightarrow> scene" where
  "burstLoop 0 position baseColor st = st"
| "burstLoop (Suc n) position baseColor st =
     burstLoop n position baseColor (burstParticle position baseColor st)"

definition createExplosion :: "Vector3 \<Rightarrow> nat \<Rightarrow> scene \<Rightarrow> scene" where
  "createExplosion position baseColor st =
     (let count = 60 in
      burstLoop count position baseColor
        (st\<lparr>gameState := (gameState st)\<lparr>exploded := exploded (gameState st) + 1\<rparr>,
            statsDirty := True\<rparr>))"

text \<open>\<^verbatim>\<open>xs.splice(i, 1)\<close>.\<close>

definition splice1 :: "nat \<Rightarrow> 'a list \<Rightarrow> 'a list" where
  "splice1 i xs = take i xs @ drop (Suc i) xs"

text \<open>The frustum test of \<^verbatim>\<open>explodeVisibleProjectiles\<close> on a projected position.\<close>

definition insideFrustum :: "Vector3 \<Rightarrow> bool" where
  "insideFrustum tempV =
     (\<bar>vx tempV\<bar> \<le> 1.05 \<and> \<bar>vy tempV\<bar> \<le> 1.05 \<and> vz tempV \<ge> - 1 \<and> vz tempV \<le> 1)"

text \<open>
  The loop of \<^verbatim>\<open>explodeVisibleProjectiles\<close> runs \<open>i\<close> from the last index down to 0;
  \<open>explodeVisibleLoop cam (Suc i)\<close> is the iteration at index \<open>i\<close> followed by the rest.
\<close>

fun explodeVisibleLoop :: "(Vector3 \<Rightarrow> Vector3) \<Rightarrow> nat \<Rightarrow> scene \<Rightarrow> scene" where
  "explodeVisibleLoop cam 0 st = st"
| "explodeVisibleLoop cam (Suc i) st =
     (let p = projectiles st ! i;
          tempV = cam (proj_position p)
      in if insideFrustum tempV then
           (let st' = createExplosion (proj_position p) (proj_color p) st
            in explodeVisibleLoop cam i (st'\<lparr>projectiles := splice1 i (projectiles st')\<rparr>))
         else explodeVisibleLoop cam i st)"

definition explodeVisibleProjectiles :: "scene \<Rightarrow> scene" where
  "explodeVisibleProjectiles st =
     (case cameraRef st of
        None \<Rightarrow> st
      | Some cam \<Rightarrow>
          if \<not> sceneRef st then st
          else explodeVisibleLoop cam (length (projectiles st)) st)"

section \<open>Envelopes and coins\<close>

text \<open>The inner loop of \<^verbatim>\<open>spawnEnvelopes3D\<close>: one celebratory particle per iteration.\<close>

definition envelopeParticle :: "real \<Rightarrow> real \<Rightarrow> bool \<Rightarrow> scene \<Rightarrow> scene" where
  "envelopeParticle x0 y0 golden st0 =
     (let particleColor = (if golden then GOLD_COLOR else ENVELOPE_RED);
          pX = x0; pY = y0; pZ = 12;
          (r1, st1) = Math_random st0;
          burstSpeed0 = 0.1 + r1 * 0.2;
          (r2, st2) = Math_random st1;
          angle = r2 * pi * 2;
          velX = cos angle * burstSpeed0;
          velY = sin angle * burstSpeed0;
          (r3, st3) = Math_random st2;
          velZ = (r3 - 0.5) * 0.2
      in spawnParticle (Vector3 pX pY pZ) particleColor (Vector3 velX velY velZ)
           1.5 0.03 (if golden then 4.5 else 3.0) st3)"

fun envelopeParticles :: "nat \<Rightarrow> real \<Rightarrow> real \<Rightarrow> bool \<Rightarrow> scene \<Rightarrow> scene" where
  "envelopeParticles 0 x0 y0 golden st = st"
| "envelopeParticles (Suc n) x0 y0 golden st =
     envelopeParticles n x0 y0 golden (envelopeParticle x0 y0 golden st)"

text \<open>One iteration, at index \<open>i\<close>, of the outer loop of \<^verbatim>\<open>spawnEnvelopes3D\<close>.\<close>

definition spawnEnvelope :: "real \<Rightarrow> int \<Rightarrow> nat \<Rightarrow> scene \<Rightarrow> scene" where
  "spawnEnvelope startX goldenIndex i st0 =
     (let golden = (int i = goldenIndex);
          spacing = 3.5;
          x0 = startX + real i * spacing;
          y0 = 10;
          (r, st1) = Math_random st0;
          st2 = st1\<lparr>envelopes := envelopes st1 @
                  [\<lparr>env_id = r, env_position = Vector3 x0 y0 12, isGolden = golden\<rparr>]\<rparr>;
          particleCount = (if golden then 40 else 20)
      in envelopeParticles particleCount x0 y0 golden st2)"

text \<open>
  The loop \<^verbatim>\<open>for (i = 0; i < count; i++)\<close> of \<^verbatim>\<open>spawnEnvelopes3D\<close>, from index \<open>i\<close>;
  the first argument is the number of iterations left.
\<close>

fun spawnEnvelopeLoop :: "nat \<Rightarrow> real \<Rightarrow> int \<Rightarrow> nat \<Rightarrow> scene \<Rightarrow> scene" where
  "spawnEnvelopeLoop 0 startX goldenIndex i st = st"
| "spawnEnvelopeLoop (Suc n) startX goldenIndex i st =
     spawnEnvelopeLoop n startX goldenIndex (Suc i) (spawnEnvelope startX goldenIndex i st)"

definition spawnEnvelopes3D :: "scene \<Rightarrow> scene" where
  "spawnEnvelopes3D st0 =
     (if \<not> sceneRef st0 then st0
      else if length (envelopes st0) > 0 then st0
      else
        (let (r1, st1) = Math_random st0;
             count = nat \<lfloor>r1 * 4\<rfloor> + 1;
             spacing = 3.5;
             totalWidth = (real count - 1) * spacing;
             startX = - totalWidth / 2;
             (r2, st2) = Math_random st1;
             (goldenIndex, st3) =
               (if r2 < 0.3 then
                  (let (r3, s) = Math_random st2 in (\<lfloor>r3 * real count\<rfloor>, s))
                else (- 1, st2))
         in spawnEnvelopeLoop count startX goldenIndex 0 st3))"

text \<open>The available charges, as \<^verbatim>\<open>trySpawnEnvelopes\<close> computes them.\<close>

definition available :: "GameStats \<Rightarrow> int" where
  "available g = \<lfloor>real_of_int (exploded g - consumed g) / 5\<rfloor>"

definition trySpawnEnvelopes :: "scene \<Rightarrow> scene" where
  "trySpawnEnvelopes st =
     (if available (gameState st) < 1 then st
      else spawnEnvelopes3D
             (st\<lparr>gameState := (gameState st)\<lparr>consumed := consumed (gameState st) + 5\<rparr>,
                 statsDirty := True\<rparr>))"

text \<open>One iteration of the loop of \<^verbatim>\<open>spawnCoins\<close>: one coin is created and pushed.\<close>

definition spawnCoin :: "Vector3 \<Rightarrow> scene \<Rightarrow> scene" where
  "spawnCoin position st0 =
     (let (r1, st1) = Math_random st0;
          (r2, st2) = Math_random st1;
          pos = Vector3 (vx position + (r1 - 0.5) * 2) (vy position + (r2 - 0.5) * 2)
                  (vz position);
          (r3, st3) = Math_random st2;
          (r4, st4) = Math_random st3;
          (r5, st5) = Math_random st4;
          rot = Vector3 (r3 * pi) (r4 * pi) (r5 * pi);
          (r6, st6) = Math_random st5;
          (r7, st7) = Math_random st6;
          (r8, st8) = Math_random st7;
          (r9, st9) = Math_random st8;
          (r10, st10) = Math_random st9
      in st10\<lparr>coinsRef := coinsRef st10 @
            [\<lparr>coin_position = pos, coin_rotation = rot,
              coin_velocity = Vector3 ((r6 - 0.5) * 0.4) (r7 * 0.4) ((r8 - 0.5) * 0.4),
              rotSpeed = ((r9 - 0.5) * 0.2, (r10 - 0.5) * 0.2)\<rparr>]\<rparr>)"

fun spawnCoinLoop :: "nat \<Rightarrow> Vector3 \<Rightarrow> scene \<Rightarrow> scene" where
  "spawnCoinLoop 0 position st = st"
| "spawnCoinLoop (Suc n) position st = spawnCoinLoop n position (spawnCoin position st)"

text \<open>The number of coins of a batch, from the sample \<open>r\<close>, and the value of one coin.\<close>

definition coinCount :: "real \<Rightarrow> bool \<Rightarrow> nat" where
  "coinCount r golden =
     (let count = nat \<lfloor>r * 8\<rfloor> + 3 in if golden then count * 2 else count)"

definition coinValue :: "bool \<Rightarrow> int" where
  "coinValue golden = (if golden then 2 else 1)"

definition spawnCoins :: "Vector3 \<Rightarrow> bool \<Rightarrow> scene \<Rightarrow> scene" where
  "spawnCoins position golden st0 =
     (if \<not> sceneRef st0 then st0
      else
        (let (r, st1) = Math_random st0;
             count = coinCount r golden;
             st2 = st1\<lparr>gameState := (gameState st1)
                        \<lparr>coins := coins (gameState st1) + int count * coinValue golden\<rparr>,
                      statsDirty := True\<rparr>
         in spawnCoinLoop count position st2))"

text \<open>\<^verbatim>\<open>envelopes.current.forEach\<close> over the envelopes that were alive at the call.\<close>

fun convertEnvelopes :: "envelope list \<Rightarrow> scene \<Rightarrow> scene" where
  "convertEnvelopes [] st = st"
| "convertEnvelopes (e # es) st =
     convertEnvelopes es (spawnCoins (env_position e) (isGolden e) st)"

definition explodeEnvelopes :: "scene \<Rightarrow> scene" where
  "explodeEnvelopes st =
     (if \<not> sceneRef st then st
      else if length (envelopes st) = 0 then st
      else (convertEnvelopes (envelopes st) st)\<lparr>envelopes := []\<rparr>)"

section \<open>The per-frame loop\<close>

text \<open>The statistics report at the start of a frame.\<close>

definition reportStats :: "scene \<Rightarrow> scene" where
  "reportStats st =
     (if statsDirty st then st\<lparr>emitted := gameState st # emitted st, statsDirty := False\<rparr>
      else st)"

subsection \<open>Gesture debounce\<close>

definition rawGesture :: "scene \<Rightarrow> Gesture" where
  "rawGesture st = (case handDataRef st of None \<Rightarrow> Gesture_None | Some hand \<Rightarrow> gesture hand)"

definition gestureDebounce :: "scene \<Rightarrow> scene" where
  "gestureDebounce st =
     (if rawGesture st = pendingGesture st then
        st\<lparr>gestureFrameCount := gestureFrameCount st + 1\<rparr>
      else st\<lparr>pendingGesture := rawGesture st, gestureFrameCount := 0\<rparr>)"

text \<open>The local \<^verbatim>\<open>activeGesture\<close> of the frame, read after the debounce.\<close>

definition activeGesture :: "scene \<Rightarrow> Gesture" where
  "activeGesture st =
     (if gestureFrameCount st > 5 then pendingGesture st else stableGesture st)"

subsection \<open>Spawn scheduler\<close>

definition spawnLogic :: "real \<Rightarrow> scene \<Rightarrow> scene" where
  "spawnLogic time st0 =
     (if isGameActiveRef st0 \<and> time > nextSpawnTime st0 then
        (let st1 = spawnProjectile st0;
             (r, st2) = Math_random st1;
             baseDelay = r * (2000 - 666) + 666;
             finalDelay =
               (case handDataRef st2 of
                  None \<Rightarrow> baseDelay
                | Some hand \<Rightarrow>
                    if gesture hand = Closed_Fist then
                      (let t = min (max (hand_velocity hand) 0 / 4.0) 1.0
                       in baseDelay * (1.0 - 0.5 * t))
                    else baseDelay)
         in st2\<lparr>nextSpawnTime := time + finalDelay\<rparr>)
      else st0)"

subsection \<open>Gesture triggers\<close>

definition gestureTriggers :: "Gesture \<Rightarrow> scene \<Rightarrow> scene" where
  "gestureTriggers activeGesture0 st =
     (if isGameActiveRef st \<and> activeGesture0 \<noteq> stableGesture st then
        (let prev = stableGesture st;
             curr = activeGesture0;
             st1 = (if curr = Open_Palm \<and> prev \<noteq> Open_Palm
                    then explodeVisibleProjectiles st else st);
             st2 = (if curr = Victory \<and> prev \<noteq> Victory
                    then trySpawnEnvelopes st1 else st1);
             st3 = (if prev = Victory \<and> curr = Open_Palm
                    then explodeEnvelopes st2 else st2)
         in st3\<lparr>stableGesture := activeGesture0\<rparr>)
      else if \<not> isGameActiveRef st then st\<lparr>stableGesture := activeGesture0\<rparr>
      else st)"

subsection \<open>Updates\<close>

text \<open>The body of the particle loop at slot \<open>i\<close>.\<close>

definition updateParticle :: "real \<Rightarrow> nat \<Rightarrow> scene \<Rightarrow> scene" where
  "updateParticle sec i st =
     (let p = particlesData st ! i in
      if active p then
        (let v1 = Vector3 (vx (velocity p) * 0.98) (vy (velocity p) - 0.005)
                    (vz (velocity p) * 0.98);
             ps = particlePositions st;
             pos1 = ps[i * 3 := ps ! (i * 3) + vx v1,
                       i * 3 + 1 := ps ! (i * 3 + 1) + vy v1,
                       i * 3 + 2 := ps ! (i * 3 + 2) + vz v1];
             life1 = life p - decay p;
             blink = life1 * (0.6 + 0.4 * sin (sec * 15 + real i * 0.1));
             size1 = max 0 (blink * initialSize p);
             dead = (life1 \<le> 0 \<or> pos1 ! (i * 3 + 1) < - 20)
         in st\<lparr>particlePositions := (if dead then pos1[i * 3 + 1 := - 1000] else pos1),
               particleSizes := (particleSizes st)[i := (if dead then 0 else size1)],
               particlesData :=
                 (particlesData st)[i := p\<lparr>active := \<not> dead, life := life1, velocity := v1\<rparr>]\<rparr>)
      else st)"

definition updateParticles :: "real \<Rightarrow> scene \<Rightarrow> scene" where
  "updateParticles sec st = foldl (\<lambda>s i. updateParticle sec i s) st [0..<MAX_PARTICLES]"

text \<open>
  A loop \<^verbatim>\<open>for (i = n - 1; i >= 0; i--)\<close> with body \<open>f\<close>: \<open>downLoop f (Suc i)\<close> is the
  iteration at index \<open>i\<close> followed by the iterations below it.
\<close>

fun downLoop :: "(nat \<Rightarrow> 's \<Rightarrow> 's) \<Rightarrow> nat \<Rightarrow> 's \<Rightarrow> 's" where
  "downLoop f 0 s = s"
| "downLoop f (Suc i) s = downLoop f i (f i s)"

definition updateProjectile :: "real \<Rightarrow> nat \<Rightarrow> scene \<Rightarrow> scene" where
  "updateProjectile sec i st0 =
     (let p = projectiles st0 ! i;
          pos0 = proj_position p;
          vel0 = proj_velocity p;
          pos1 = Vector3 (vx pos0 + vx vel0) (vy pos0 + vy vel0) (vz pos0 + vz vel0);
          vel1 = Vector3 (vx vel0) (vy vel0 * 0.998) (vz vel0);
          pos2 = Vector3 (vx pos1 + sin (sec * 5 + proj_id p) * 0.02) (vy pos1) (vz pos1);
          st1 = st0\<lparr>projectiles :=
                  (projectiles st0)[i := p\<lparr>proj_position := pos2, proj_velocity := vel1\<rparr>]\<rparr>;
          (r1, st2) = Math_random st1;
          st3 = (if r1 > 0.4 then
                   (let (r2, sa) = Math_random st2;
                        size0 = (0.8 + r2 * 0.5) * 4.0;
                        (r3, sb) = Math_random sa;
                        (r4, sc) = Math_random sb
                    in spawnParticle pos2 (proj_color p)
                         (Vector3 ((r3 - 0.5) * 0.1) (- 0.1) ((r4 - 0.5) * 0.1))
                         0.8 0.03 size0 sc)
                 else st2)
      in if vy pos2 > 40 then st3\<lparr>projectiles := splice1 i (projectiles st3)\<rparr> else st3)"

definition updateCoin :: "nat \<Rightarrow> scene \<Rightarrow> scene" where
  "updateCoin i st =
     (let c = coinsRef st ! i;
          pos0 = coin_position c;
          vel0 = coin_velocity c;
          rot0 = coin_rotation c;
          pos1 = Vector3 (vx pos0 + vx vel0) (vy pos0 + vy vel0) (vz pos0 + vz vel0);
          vel1 = Vector3 (vx vel0) (vy vel0 - 0.04) (vz vel0);
          rot1 = Vector3 (vx rot0 + fst (rotSpeed c)) (vy rot0 + snd (rotSpeed c)) (vz rot0);
          cs = (coinsRef st)
                 [i := c\<lparr>coin_position := pos1, coin_rotation := rot1, coin_velocity := vel1\<rparr>]
      in st\<lparr>coinsRef := (if vy pos1 < - 20 then splice1 i cs else cs)\<rparr>)"

subsection \<open>One frame\<close>

text \<open>
  \<^verbatim>\<open>loop(time)\<close>. The beam animation, the scale oscillation of the envelope meshes, the
  \<^verbatim>\<open>needsUpdate\<close> flags and the render call touch nothing the core reads and are left out.
\<close>

definition loop :: "real \<Rightarrow> scene \<Rightarrow> scene" where
  "loop time st0 =
     (let sec = time * 0.001 in
      if \<not> sceneRef st0 \<or> cameraRef st0 = None \<or> \<not> rendererRef st0 then st0
      else
        (let st1 = reportStats st0;
             st2 = gestureDebounce st1;
             activeGesture0 = activeGesture st2;
             st3 = spawnLogic time st2;
             st4 = gestureTriggers activeGesture0 st3;
             st5 = updateParticles sec st4;
             st6 = downLoop (updateProjectile sec) (length (projectiles st5)) st5;
             st7 = downLoop updateCoin (length (coinsRef st6)) st6
         in st7))"

subsection \<open>Props, mount and the frame driver\<close>

definition zeroStats :: GameStats where
  "zeroStats = \<lparr>exploded = 0, consumed = 0, coins = 0\<rparr>"

text \<open>The effect that follows the prop \<^verbatim>\<open>isGameActive\<close>.\<close>

definition syncGameActive :: "bool \<Rightarrow> scene \<Rightarrow> scene" where
  "syncGameActive isGameActive st =
     (let st1 = st\<lparr>isGameActiveRef := isGameActive\<rparr>
      in if isGameActive then st1\<lparr>gameState := zeroStats\<rparr> else st1)"

text \<open>
  New props between two frames: the hand snapshot is copied to its ref, and the effect on
  \<^verbatim>\<open>isGameActive\<close> runs when that prop has changed.
\<close>

definition syncProps :: "HandData option \<Rightarrow> bool \<Rightarrow> scene \<Rightarrow> scene" where
  "syncProps hand isGameActive st =
     (let st1 = st\<lparr>handDataRef := hand\<rparr>
      in if isGameActive \<noteq> isGameActiveRef st1 then syncGameActive isGameActive st1 else st1)"

text \<open>The state the mount effect leaves, for a library, a camera and a random sequence.\<close>

definition initScene :: "three \<Rightarrow> (Vector3 \<Rightarrow> Vector3) \<Rightarrow> (nat \<Rightarrow> real) \<Rightarrow> scene" where
  "initScene lib cam rnd =
     \<lparr>projectiles = [], envelopes = [], coinsRef = [],
      particlePositions = concat (replicate MAX_PARTICLES [0, - 1000, 0]),
      particleColors = replicate (MAX_PARTICLES * 3) 0,
      particleSizes = replicate MAX_PARTICLES 0,
      particlesData =
        replicate MAX_PARTICLES
          \<lparr>active = False, life = 0, velocity = Vector3 0 0 0, decay = 0, initialSize = 0\<rparr>,
      nextSpawnTime = 0,
      gameState = zeroStats,
      statsDirty = False,
      pendingGesture = Gesture_None,
      stableGesture = Gesture_None,
      gestureFrameCount = 0,
      handDataRef = None,
      isGameActiveRef = False,
      sceneRef = True,
      cameraRef = Some cam,
      rendererRef = True,
      THREE = lib,
      random = rnd,
      drawn = 0,
      emitted = []\<rparr>"

text \<open>
  A frame is the time stamp of the animation frame with the props the component holds
  when the frame runs; \<open>run\<close> plays a list of frames.
\<close>

type_synonym frame = "real \<times> HandData option \<times> bool"

fun applyFrame :: "frame \<Rightarrow> scene \<Rightarrow> scene" where
  "applyFrame (time, hand, isGameActive) st = loop time (syncProps hand isGameActive st)"

fun run :: "frame list \<Rightarrow> scene \<Rightarrow> scene" where
  "run [] st = st"
| "run (f # fs) st = run fs (applyFrame f st)"

definition frameGesture :: "frame \<Rightarrow> Gesture" where
  "frameGesture f = (case fst (snd f) of None \<Rightarrow> Gesture_None | Some hand \<Rightarrow> gesture hand)"

section \<open>The session controller\<close>

datatype GameState = MENU | PLAYING | RESULT

record app =
  app_gameState :: GameState
  timeLeft :: int
  restartCooldown :: int
  stats :: GameStats
  handData :: "HandData option"

definition startGame :: "app \<Rightarrow> app" where
  "startGame a = a\<lparr>stats := zeroStats, timeLeft := 30, app_gameState := PLAYING\<rparr>"

text \<open>The interval callback of the timer effect, which runs while the state is \<open>PLAYING\<close>.\<close>

definition timerTick :: "app \<Rightarrow> app" where
  "timerTick a =
     (if timeLeft a \<le> 1 then a\<lparr>app_gameState := RESULT, timeLeft := 0\<rparr>
      else a\<lparr>timeLeft := timeLeft a - 1\<rparr>)"

text \<open>The callback of the interval of the restart cooldown effect.\<close>

definition cooldownTick :: "app \<Rightarrow> app" where
  "cooldownTick a =
     (if restartCooldown a \<le> 1 then a\<lparr>restartCooldown := 0\<rparr>
      else a\<lparr>restartCooldown := restartCooldown a - 1\<rparr>)"

text \<open>
  An effect reads the state values of the render it belongs to (\<open>cur\<close>), and its calls of
  the state setters are queued: they change the values of the next render, not the ones
  the effects of this render read. \<open>pending\<close> is the state that the updates queued so far
  lead to. The body of the restart cooldown effect queues \<^verbatim>\<open>setRestartCooldown(3)\<close>; the
  body of the gesture effect for the menu and the result screen may call \<^verbatim>\<open>startGame\<close>,
  which queues three constant updates.
\<close>

definition cooldownEffect :: "app \<Rightarrow> app \<Rightarrow> app" where
  "cooldownEffect cur pending =
     (if app_gameState cur = RESULT then pending\<lparr>restartCooldown := 3\<rparr> else pending)"

definition gestureControls :: "app \<Rightarrow> app \<Rightarrow> app" where
  "gestureControls cur pending =
     (case handData cur of
        None \<Rightarrow> pending
      | Some hand \<Rightarrow>
          if gesture hand = Victory then
            (if app_gameState cur = MENU then startGame pending
             else if app_gameState cur = RESULT \<and> restartCooldown cur = 0 then startGame pending
             else pending)
          else pending)"

text \<open>
  The dependency array \<^verbatim>\<open>[handData?.gesture, gameState, restartCooldown]\<close> of the gesture
  effect.
\<close>

definition gestureDeps :: "app \<Rightarrow> Gesture option \<times> GameState \<times> int" where
  "gestureDeps a = (map_option gesture (handData a), app_gameState a, restartCooldown a)"

text \<open>
  The component between two events: the current values of its state hooks, the
  dependencies with which the effects on \<^verbatim>\<open>[gameState]\<close> and the gesture effect ran last
  (\<open>None\<close> before the mount), and whether the interval of the timer effect and the one of
  the cooldown effect exist.
\<close>

record react =
  current :: app
  seenGameState :: "GameState option"
  seenGesture :: "(Gesture option \<times> GameState \<times> int) option"
  timerInterval :: bool
  cooldownInterval :: bool

text \<open>
  One render with the effects that follow it. The effects whose dependencies differ from
  the ones they saw last run in the order of their declaration, all on the values \<open>cur\<close> of
  this render: the timer effect and the cooldown effect on a change of \<^verbatim>\<open>gameState\<close> (each
  clears the interval of its previous run and sets a new one in its own state), then the
  gesture effect. The queued updates give the values of the next render.
\<close>

definition render :: "react \<Rightarrow> react" where
  "render r =
     (let cur = current r;
          gameStateChanged = (seenGameState r \<noteq> Some (app_gameState cur));
          gestureDepsChanged = (seenGesture r \<noteq> Some (gestureDeps cur));
          pending1 = (if gameStateChanged then cooldownEffect cur cur else cur);
          pending2 = (if gestureDepsChanged then gestureControls cur pending1 else pending1)
      in \<lparr>current = pending2,
          seenGameState = Some (app_gameState cur),
          seenGesture = Some (gestureDeps cur),
          timerInterval =
            (if gameStateChanged then app_gameState cur = PLAYING else timerInterval r),
          cooldownInterval =
            (if gameStateChanged then app_gameState cur = RESULT else cooldownInterval r)\<rparr>)"

text \<open>
  The component renders again as long as a render with its effects has changed something;
  the first argument bounds the number of such renders.
\<close>

fun settle :: "nat \<Rightarrow> react \<Rightarrow> react" where
  "settle 0 r = r"
| "settle (Suc n) r = (let r' = render r in if r' = r then r else settle n r')"

text \<open>
  The events that reach the component: a new hand snapshot from the prediction loop, a
  tick of the timer interval, a tick of the cooldown interval, a click on the start
  button of the menu, a click on the replay button of the result screen, and a statistics
  snapshot from the scene. A tick of an interval that does not exist, and a click on a
  button that is not shown or is disabled, change nothing. The flags \<^verbatim>\<open>loading\<close> and
  \<^verbatim>\<open>error\<close> and the velocity graph are left out: no effect of the session reads them.
\<close>

datatype event =
  HandUpdate "HandData option" | TimerTick | CooldownTick | ClickStart | ClickReplay
  | StatsUpdate GameStats

fun handle :: "event \<Rightarrow> react \<Rightarrow> react" where
  "handle (HandUpdate hand) r = r\<lparr>current := (current r)\<lparr>handData := hand\<rparr>\<rparr>"
| "handle TimerTick r =
     (if timerInterval r then r\<lparr>current := timerTick (current r)\<rparr> else r)"
| "handle CooldownTick r =
     (if cooldownInterval r then
        r\<lparr>current := cooldownTick (current r),
          cooldownInterval := \<not> restartCooldown (current r) \<le> 1\<rparr>
      else r)"
| "handle ClickStart r =
     (if app_gameState (current r) = MENU then r\<lparr>current := startGame (current r)\<rparr> else r)"
| "handle ClickReplay r =
     (if app_gameState (current r) = RESULT \<and> restartCooldown (current r) = 0
      then r\<lparr>current := startGame (current r)\<rparr> else r)"
| "handle (StatsUpdate newStats) r = r\<lparr>current := (current r)\<lparr>stats := newStats\<rparr>\<rparr>"

text \<open>
  One event with the renders it causes, and a list of events. Two renders are enough for
  the component to come to rest (lemma \<open>render_settle\<close> below).
\<close>

definition step :: "event \<Rightarrow> react \<Rightarrow> react" where
  "step e r = settle 2 (handle e r)"



text \<open>The prop \<^verbatim>\<open>isGameActive\<close> handed to the scene.\<close>

definition isGameActive :: "app \<Rightarrow> bool" where
  "isGameActive a = (app_gameState a = PLAYING)"

section \<open>Notions used in the statements\<close>

text \<open>
  The mount effect has run: scene, camera and renderer exist, so that \<open>loop\<close> does not
  return at its first test.
\<close>

definition mounted :: "scene \<Rightarrow> bool" where
  "mounted st = (sceneRef st \<and> cameraRef st \<noteq> None \<and> rendererRef st)"

text \<open>
  The part of the state that no action on particles, projectiles, envelopes or coins
  writes: the gesture refs, the prop refs, the objects of the mount effect, the library,
  the random sequence and the sizes of the four pool arrays.
\<close>

definition frameOf ::
  "scene \<Rightarrow> Gesture \<times> Gesture \<times> nat \<times> HandData option \<times> bool \<times> bool \<times>
     (Vector3 \<Rightarrow> Vector3) option \<times> bool \<times> three \<times> (nat \<Rightarrow> real) \<times> nat \<times> nat \<times> nat \<times> nat" where
  "frameOf st =
     (pendingGesture st, stableGesture st, gestureFrameCount st, handDataRef st,
      isGameActiveRef st, sceneRef st, cameraRef st, rendererRef st, THREE st, random st,
      length (particlePositions st), length (particleColors st),
      length (particleSizes st), length (particlesData st))"

subsection \<open>A concrete scene\<close>

text \<open>
  A library, a camera and a random sequence, and the scene the mount effect builds from
  them; the theorems below are instantiated on it.
\<close>

definition demoThree :: three where
  "demoThree =
     \<lparr>Color = (\<lambda>hex. Vector3 (real ((hex div 65536) mod 256) / 255)
                 (real ((hex div 256) mod 256) / 255) (real (hex mod 256) / 255)),
      hueShiftedHex = (\<lambda>base shift. base)\<rparr>"

definition demoCamera :: "Vector3 \<Rightarrow> Vector3" where
  "demoCamera p = Vector3 (vx p / 20) (vy p / 20) 0"

definition demoRandom :: "nat \<Rightarrow> real" where
  "demoRandom i = 1 / 2"

definition demoScene :: scene where
  "demoScene = initScene demoThree demoCamera demoRandom"

definition demoHand :: "Gesture \<Rightarrow> HandData" where
  "demoHand g = \<lparr>gesture = g, hand_velocity = 4, hand_position = Vector3 0 0 0\<rparr>"

definition demoFrame :: "Gesture \<Rightarrow> frame" where
  "demoFrame g = (0, Some (demoHand g), False)"

subsection \<open>Further notions\<close>

text \<open>The entity lists and bookkeeping fields that the particle pool never writes.\<close>

definition entitiesOf ::
  "scene \<Rightarrow> projectile list \<times> envelope list \<times> coin list \<times> GameStats \<times> bool \<times> real \<times> GameStats list" where
  "entitiesOf st =
     (projectiles st, envelopes st, coinsRef st, gameState st, statsDirty st,
      nextSpawnTime st, emitted st)"

text \<open>
  The two events of the scoring economy: a detonation (\<^verbatim>\<open>createExplosion\<close>) and an
  attempt to spawn envelopes (\<^verbatim>\<open>trySpawnEnvelopes\<close>); \<open>performAll\<close> plays a sequence of
  them.
\<close>

datatype action = Detonate Vector3 nat | TrySpawn

fun perform :: "action \<Rightarrow> scene \<Rightarrow> scene" where
  "perform (Detonate position baseColor) st = createExplosion position baseColor st"
| "perform TrySpawn st = trySpawnEnvelopes st"

definition performAll :: "action list \<Rightarrow> scene \<Rightarrow> scene" where
  "performAll acts st = foldl (\<lambda>s a. perform a s) st acts"

text \<open>
  Concrete scenes: one with a live envelope and one unspent charge; one where a fist has
  been held long enough to be the stable gesture and the hand has just opened; one where
  the hand has just closed to a fist.
\<close>

definition aliveScene :: scene where
  "aliveScene =
     demoScene\<lparr>envelopes := [\<lparr>env_id = 0, env_position = Vector3 0 10 12, isGolden = False\<rparr>],
               gameState := \<lparr>exploded = 10, consumed = 5, coins = 0\<rparr>\<rparr>"

text \<open>\<open>clamp x lo hi\<close> as the specification uses it.\<close>

definition clamp :: "real \<Rightarrow> real \<Rightarrow> real \<Rightarrow> real" where
  "clamp x lo hi = max lo (min x hi)"

definition fistHeldScene :: scene where
  "fistHeldScene =
     demoScene\<lparr>isGameActiveRef := True, pendingGesture := Closed_Fist,
               stableGesture := Closed_Fist, gestureFrameCount := 6,
               handDataRef := Some (demoHand Open_Palm)\<rparr>"

definition fistRawScene :: scene where
  "fistRawScene = demoScene\<lparr>isGameActiveRef := True, handDataRef := Some (demoHand Closed_Fist)\<rparr>"

text \<open>The frustum test on a projectile, for a camera.\<close>

definition visible :: "(Vector3 \<Rightarrow> Vector3) \<Rightarrow> projectile \<Rightarrow> bool" where
  "visible cam p = insideFrustum (cam (proj_position p))"

text \<open>
  A scene in an active session whose stable gesture is Victory, with one projectile in
  view, one above the view and one live envelope.
\<close>

definition victoryScene :: scene where
  "victoryScene =
     demoScene\<lparr>isGameActiveRef := True, stableGesture := Victory,
       projectiles :=
         [\<lparr>proj_id = 0, proj_position = Vector3 0 0 0, proj_velocity = Vector3 0 1 0,
           proj_color = 65535\<rparr>,
          \<lparr>proj_id = 1, proj_position = Vector3 0 30 0, proj_velocity = Vector3 0 1 0,
           proj_color = 65344\<rparr>],
       envelopes := [\<lparr>env_id = 0, env_position = Vector3 0 10 12, isGolden = False\<rparr>],
       gameState := \<lparr>exploded = 5, consumed = 5, coins = 0\<rparr>\<rparr>"

text \<open>
  A scene whose pool is saturated.
\<close>

definition fullScene :: scene where
  "fullScene =
     demoScene\<lparr>particlesData :=
       replicate MAX_PARTICLES
         \<lparr>active = True, life = 1, velocity = Vector3 0 0 0, decay = 0.01, initialSize = 3\<rparr>\<rparr>"

text \<open>
  The six arguments of a call of \<^verbatim>\<open>spawnParticle\<close>, and the call itself.
\<close>

record spawnRequest =
  rq_position :: Vector3
  rq_color :: nat
  rq_velocity :: Vector3
  rq_life :: real
  rq_decay :: real
  rq_size :: real

definition request :: "spawnRequest \<Rightarrow> scene \<Rightarrow> scene" where
  "request q st =
     spawnParticle (rq_position q) (rq_color q) (rq_velocity q) (rq_life q) (rq_decay q)
       (rq_size q) st"

text \<open>
  The arguments that one iteration of the loop of \<^verbatim>\<open>createExplosion\<close> computes when its
  first sample of \<^verbatim>\<open>Math.random()\<close> is the one at index \<open>d\<close> of the sequence \<open>rnd\<close>: the
  samples \<open>d\<close> to \<open>d + 6\<close> give the hue shift, \<open>u\<close>, \<open>v\<close>, the speed, the size, the life and
  the decay.
\<close>

definition burstRequest ::
  "three \<Rightarrow> (nat \<Rightarrow> real) \<Rightarrow> nat \<Rightarrow> Vector3 \<Rightarrow> nat \<Rightarrow> spawnRequest" where
  "burstRequest lib rnd d position baseColor =
     \<lparr>rq_position = position,
      rq_color = hueShiftedHex lib baseColor ((rnd d - 0.5) * 0.15),
      rq_velocity = burstVelocity (rnd (d + 1)) (rnd (d + 2)) (rnd (d + 3)),
      rq_life = 1.0 + rnd (d + 5) * 0.5,
      rq_decay = 0.01 + rnd (d + 6) * 0.01,
      rq_size = (0.8 + rnd (d + 4) * 0.8) * 3.0\<rparr>"

text \<open>The length of a vector: the speed of a particle with that velocity.\<close>

definition norm3 :: "Vector3 \<Rightarrow> real" where
  "norm3 w = sqrt ((vx w)\<^sup>2 + (vy w)\<^sup>2 + (vz w)\<^sup>2)"






section \<open>Frame lemmas\<close>

text \<open>Updates of the other fields, and every action, leave \<open>frameOf\<close> as it is.\<close>

lemma frameOf_upd [simp]:
  "frameOf (st\<lparr>projectiles := a\<rparr>) = frameOf st"
  "frameOf (st\<lparr>envelopes := b\<rparr>) = frameOf st"
  "frameOf (st\<lparr>coinsRef := c\<rparr>) = frameOf st"
  "frameOf (st\<lparr>gameState := d\<rparr>) = frameOf st"
  "frameOf (st\<lparr>statsDirty := e\<rparr>) = frameOf st"
  "frameOf (st\<lparr>nextSpawnTime := f\<rparr>) = frameOf st"
  "frameOf (st\<lparr>drawn := g\<rparr>) = frameOf st"
  "frameOf (st\<lparr>emitted := h\<rparr>) = frameOf st"
  by (simp_all add: frameOf_def)

lemma frameOf_sceneRef: "frameOf a = frameOf b \<Longrightarrow> sceneRef a = sceneRef b"
  by (simp add: frameOf_def)

lemma frameOf_cameraRef: "frameOf a = frameOf b \<Longrightarrow> cameraRef a = cameraRef b"
  by (simp add: frameOf_def)

lemma frameOf_spawnParticle [simp]:
  "frameOf (spawnParticle pos c vel l d s st) = frameOf st"
  by (simp add: spawnParticle_def Math_random_def frameOf_def Let_def split: option.split)

lemma frameOf_spawnProjectile [simp]: "frameOf (spawnProjectile st) = frameOf st"
  by (simp add: spawnProjectile_def Math_random_def Let_def)

lemma frameOf_burstParticle [simp]: "frameOf (burstParticle pos c st) = frameOf st"
  by (simp add: burstParticle_def Math_random_def Let_def)

lemma frameOf_burstLoop [simp]: "frameOf (burstLoop n pos c st) = frameOf st"
  by (induction n arbitrary: st) simp_all

lemma frameOf_createExplosion [simp]: "frameOf (createExplosion pos c st) = frameOf st"
  by (simp add: createExplosion_def)

lemma frameOf_explodeVisibleLoop [simp]: "frameOf (explodeVisibleLoop cam i st) = frameOf st"
  by (induction i arbitrary: st) (simp_all add: Let_def)

lemma frameOf_explodeVisibleProjectiles [simp]:
  "frameOf (explodeVisibleProjectiles st) = frameOf st"
  by (simp add: explodeVisibleProjectiles_def split: option.split)

lemma frameOf_envelopeParticle [simp]: "frameOf (envelopeParticle x0 y0 g st) = frameOf st"
  by (simp add: envelopeParticle_def Math_random_def Let_def)

lemma frameOf_envelopeParticles [simp]: "frameOf (envelopeParticles n x0 y0 g st) = frameOf st"
  by (induction n arbitrary: st) simp_all

lemma frameOf_spawnEnvelope [simp]: "frameOf (spawnEnvelope sx gi i st) = frameOf st"
  by (simp add: spawnEnvelope_def Math_random_def Let_def)

lemma frameOf_spawnEnvelopeLoop [simp]: "frameOf (spawnEnvelopeLoop n sx gi i st) = frameOf st"
  by (induction n arbitrary: st i) simp_all

lemma frameOf_spawnEnvelopes3D [simp]: "frameOf (spawnEnvelopes3D st) = frameOf st"
  by (simp add: spawnEnvelopes3D_def Math_random_def Let_def)

lemma frameOf_trySpawnEnvelopes [simp]: "frameOf (trySpawnEnvelopes st) = frameOf st"
  by (simp add: trySpawnEnvelopes_def)

lemma frameOf_spawnCoin [simp]: "frameOf (spawnCoin pos st) = frameOf st"
  by (simp add: spawnCoin_def Math_random_def Let_def)

lemma frameOf_spawnCoinLoop [simp]: "frameOf (spawnCoinLoop n pos st) = frameOf st"
  by (induction n arbitrary: st) simp_all

lemma frameOf_spawnCoins [simp]: "frameOf (spawnCoins pos g st) = frameOf st"
  by (simp add: spawnCoins_def Math_random_def Let_def)

lemma frameOf_convertEnvelopes [simp]: "frameOf (convertEnvelopes es st) = frameOf st"
  by (induction es arbitrary: st) simp_all

lemma frameOf_explodeEnvelopes [simp]: "frameOf (explodeEnvelopes st) = frameOf st"
  by (simp add: explodeEnvelopes_def)

lemma frameOf_reportStats [simp]: "frameOf (reportStats st) = frameOf st"
  by (simp add: reportStats_def)

lemma frameOf_spawnLogic [simp]: "frameOf (spawnLogic t st) = frameOf st"
  by (simp add: spawnLogic_def Math_random_def Let_def)

lemma frameOf_updateParticle [simp]: "frameOf (updateParticle sec i st) = frameOf st"
  by (simp add: updateParticle_def Let_def frameOf_def)

lemma foldl_keeps: "(\<And>s i. g (f s i) = g s) \<Longrightarrow> g (foldl f s xs) = g s"
  by (induction xs arbitrary: s) simp_all

lemma downLoop_keeps: "(\<And>i s. g (f i s) = g s) \<Longrightarrow> g (downLoop f n s) = g s"
  by (induction n arbitrary: s) simp_all

lemma frameOf_updateParticles [simp]: "frameOf (updateParticles sec st) = frameOf st"
  unfolding updateParticles_def by (rule foldl_keeps) simp

lemma frameOf_updateProjectile [simp]: "frameOf (updateProjectile sec i st) = frameOf st"
  by (simp add: updateProjectile_def Math_random_def Let_def)

lemma frameOf_updateCoin [simp]: "frameOf (updateCoin i st) = frameOf st"
  by (simp add: updateCoin_def Let_def)

lemma frameOf_stable_cong:
  "frameOf s = frameOf st \<Longrightarrow>
   frameOf (s\<lparr>stableGesture := g\<rparr>) = frameOf (st\<lparr>stableGesture := g\<rparr>)"
  by (simp add: frameOf_def)

lemma frameOf_stable_same: "frameOf (st\<lparr>stableGesture := stableGesture st\<rparr>) = frameOf st"
  by (simp add: frameOf_def)

lemma frameOf_gestureTriggers:
  "frameOf (gestureTriggers ag st) = frameOf (st\<lparr>stableGesture := ag\<rparr>)"
  by (auto simp add: gestureTriggers_def Let_def frameOf_stable_same
      intro!: frameOf_stable_cong)

lemma frameOf_gestureDebounce_cong:
  "frameOf a = frameOf b \<Longrightarrow> frameOf (gestureDebounce a) = frameOf (gestureDebounce b)"
  by (simp add: frameOf_def gestureDebounce_def rawGesture_def)

lemma frameOf_activeGesture_cong: "frameOf a = frameOf b \<Longrightarrow> activeGesture a = activeGesture b"
  by (simp add: frameOf_def activeGesture_def)

lemma frameOf_loop:
  "frameOf (loop t st) =
     (if sceneRef st \<and> cameraRef st \<noteq> None \<and> rendererRef st then
        frameOf ((gestureDebounce st)\<lparr>stableGesture := activeGesture (gestureDebounce st)\<rparr>)
      else frameOf st)"
proof -
  have d: "frameOf (gestureDebounce (reportStats st)) = frameOf (gestureDebounce st)"
    by (rule frameOf_gestureDebounce_cong) simp
  have a: "activeGesture (gestureDebounce (reportStats st)) = activeGesture (gestureDebounce st)"
    by (rule frameOf_activeGesture_cong) (rule d)
  have s: "frameOf (spawnLogic t (gestureDebounce (reportStats st))) = frameOf (gestureDebounce st)"
    by (simp add: d)
  show ?thesis
    by (simp add: loop_def Let_def downLoop_keeps frameOf_gestureTriggers a
        frameOf_stable_cong [OF s])
qed

lemma frameOf_syncProps:
  "frameOf (syncProps h a st) = frameOf (st\<lparr>handDataRef := h, isGameActiveRef := a\<rparr>)"
  by (auto simp add: syncProps_def syncGameActive_def Let_def frameOf_def)

lemma frameOf_applyFrame:
  assumes "mounted st"
  shows "frameOf (applyFrame f st) =
     (let c = (if frameGesture f = pendingGesture st then gestureFrameCount st + 1 else 0)
      in (frameGesture f, (if c > 5 then frameGesture f else stableGesture st), c,
          fst (snd f), snd (snd f), sceneRef st, cameraRef st, rendererRef st, THREE st,
          random st, length (particlePositions st), length (particleColors st),
          length (particleSizes st), length (particlesData st)))"
proof -
  obtain t h a where f: "f = (t, h, a)" by (cases f)
  have m: "sceneRef (syncProps h a st) \<and> cameraRef (syncProps h a st) \<noteq> None \<and>
      rendererRef (syncProps h a st)"
    using assms by (auto simp add: syncProps_def syncGameActive_def Let_def mounted_def)
  have "frameOf (applyFrame f st) =
      frameOf ((gestureDebounce (syncProps h a st))
        \<lparr>stableGesture := activeGesture (gestureDebounce (syncProps h a st))\<rparr>)"
    using m by (simp add: f frameOf_loop)
  also have "\<dots> = frameOf ((gestureDebounce (st\<lparr>handDataRef := h, isGameActiveRef := a\<rparr>))
        \<lparr>stableGesture := activeGesture (gestureDebounce (st\<lparr>handDataRef := h, isGameActiveRef := a\<rparr>))\<rparr>)"
  proof -
    have e1: "frameOf (gestureDebounce (syncProps h a st)) =
        frameOf (gestureDebounce (st\<lparr>handDataRef := h, isGameActiveRef := a\<rparr>))"
      by (rule frameOf_gestureDebounce_cong) (rule frameOf_syncProps)
    have e2: "activeGesture (gestureDebounce (syncProps h a st)) =
        activeGesture (gestureDebounce (st\<lparr>handDataRef := h, isGameActiveRef := a\<rparr>))"
      by (rule frameOf_activeGesture_cong) (rule e1)
    show ?thesis
      by (simp only: e2 frameOf_stable_cong [OF e1])
  qed
  also have "\<dots> = (let c = (if frameGesture f = pendingGesture st then gestureFrameCount st + 1 else 0)
      in (frameGesture f, (if c > 5 then frameGesture f else stableGesture st), c,
          fst (snd f), snd (snd f), sceneRef st, cameraRef st, rendererRef st, THREE st,
          random st, length (particlePositions st), length (particleColors st),
          length (particleSizes st), length (particlesData st)))"
    by (simp add: f frameOf_def gestureDebounce_def rawGesture_def activeGesture_def
        frameGesture_def Let_def)
  finally show ?thesis .
qed

lemma applyFrame_gesture:
  assumes "mounted st"
  shows "mounted (applyFrame f st)"
    and "pendingGesture (applyFrame f st) = frameGesture f"
    and "gestureFrameCount (applyFrame f st) =
           (if frameGesture f = pendingGesture st then gestureFrameCount st + 1 else 0)"
    and "stableGesture (applyFrame f st) =
           (if gestureFrameCount (applyFrame f st) > 5 then frameGesture f
            else stableGesture st)"
    and "length (particlesData (applyFrame f st)) = length (particlesData st)"
  using frameOf_applyFrame [OF assms, of f] assms
  by (simp_all add: frameOf_def [of "applyFrame f st"] mounted_def Let_def)

lemma run_append: "run (fs @ gs) st = run gs (run fs st)"
  by (induction fs arbitrary: st) simp_all

lemma run_held:
  assumes "mounted st" and "pendingGesture st = v" and "\<forall>f\<in>set fs. frameGesture f = v"
  shows "mounted (run fs st) \<and> pendingGesture (run fs st) = v \<and>
         gestureFrameCount (run fs st) = gestureFrameCount st + length fs \<and>
         stableGesture (run fs st) =
           (if gestureFrameCount st + length fs > 5 \<and> fs \<noteq> [] then v else stableGesture st)"
  using assms
proof (induction fs arbitrary: st)
  case Nil
  then show ?case by simp
next
  case (Cons f fs)
  let ?s = "applyFrame f st"
  have fv: "frameGesture f = v" using Cons.prems(3) by simp
  have m: "mounted ?s" and p: "pendingGesture ?s = v"
    and c: "gestureFrameCount ?s = gestureFrameCount st + 1"
    and s: "stableGesture ?s = (if gestureFrameCount st + 1 > 5 then v else stableGesture st)"
    using applyFrame_gesture [OF Cons.prems(1), of f] fv Cons.prems(2) by simp_all
  have rest: "\<forall>g\<in>set fs. frameGesture g = v" using Cons.prems(3) by simp
  show ?case
    using Cons.IH [OF m p rest] c s by auto
qed

lemma run_alternating:
  assumes "mounted st" and "distinct_adj (map frameGesture fs)"
    and "gestureFrameCount st < 5 \<or> fs = [] \<or> frameGesture (hd fs) \<noteq> pendingGesture st"
  shows "stableGesture (run fs st) = stableGesture st"
  using assms
proof (induction fs arbitrary: st)
  case Nil
  then show ?case by simp
next
  case (Cons f fs)
  let ?s = "applyFrame f st"
  note g = applyFrame_gesture [OF Cons.prems(1), of f]
  have c5: "gestureFrameCount ?s \<le> 5" using g(3) Cons.prems(3) by auto
  have st: "stableGesture ?s = stableGesture st" using g(4) c5 by simp
  have d: "distinct_adj (map frameGesture fs)"
    using Cons.prems(2) by (cases fs) simp_all
  have nxt: "gestureFrameCount ?s < 5 \<or> fs = [] \<or> frameGesture (hd fs) \<noteq> pendingGesture ?s"
  proof (cases fs)
    case Nil
    then show ?thesis by simp
  next
    case (Cons f' fs')
    then show ?thesis using g(2) Cons.prems(2) by auto
  qed
  show ?case using Cons.IH [OF g(1) d nxt] st by simp
qed

lemma mounted_demoScene: "mounted demoScene"
  by (simp add: mounted_def demoScene_def initScene_def)

section \<open>The statistics counters\<close>

lemma entitiesOf_drawn [simp]: "entitiesOf (st\<lparr>drawn := n\<rparr>) = entitiesOf st"
  by (simp add: entitiesOf_def)

lemma entitiesOf_spawnParticle [simp]:
  "entitiesOf (spawnParticle pos c vel l d s st) = entitiesOf st"
  by (simp add: spawnParticle_def Math_random_def entitiesOf_def Let_def split: option.split)

lemma entitiesOf_burstParticle [simp]: "entitiesOf (burstParticle pos c st) = entitiesOf st"
  by (simp add: burstParticle_def Math_random_def Let_def)

lemma entitiesOf_burstLoop [simp]: "entitiesOf (burstLoop n pos c st) = entitiesOf st"
  by (induction n arbitrary: st) simp_all

lemma entitiesOf_envelopeParticle [simp]:
  "entitiesOf (envelopeParticle x0 y0 g st) = entitiesOf st"
  by (simp add: envelopeParticle_def Math_random_def Let_def)

lemma entitiesOf_envelopeParticles [simp]:
  "entitiesOf (envelopeParticles n x0 y0 g st) = entitiesOf st"
  by (induction n arbitrary: st) simp_all

lemma entitiesOf_gameState: "entitiesOf a = entitiesOf b \<Longrightarrow> gameState a = gameState b"
  by (simp add: entitiesOf_def)

lemma entitiesOf_createExplosion:
  "entitiesOf (createExplosion pos c st) =
     entitiesOf (st\<lparr>gameState := (gameState st)\<lparr>exploded := exploded (gameState st) + 1\<rparr>,
                   statsDirty := True\<rparr>)"
  by (simp add: createExplosion_def)

lemma gameState_createExplosion [simp]:
  "gameState (createExplosion pos c st) =
     (gameState st)\<lparr>exploded := exploded (gameState st) + 1\<rparr>"
  using entitiesOf_createExplosion [of pos c st] by (simp add: entitiesOf_def)

lemma gameState_spawnEnvelope [simp]:
  "gameState (spawnEnvelope sx gi i st) = gameState st"
proof -
  have "entitiesOf (spawnEnvelope sx gi i st) =
      entitiesOf (st\<lparr>envelopes := envelopes st @
        [\<lparr>env_id = random st (drawn st),
          env_position = Vector3 (sx + real i * 3.5) 10 12, isGolden = (int i = gi)\<rparr>]\<rparr>)"
    by (simp add: spawnEnvelope_def Math_random_def Let_def) (simp add: entitiesOf_def)
  then show ?thesis by (simp add: entitiesOf_def)
qed

lemma gameState_spawnEnvelopeLoop [simp]:
  "gameState (spawnEnvelopeLoop n sx gi i st) = gameState st"
  by (induction n arbitrary: st i) simp_all

lemma gameState_spawnEnvelopes3D [simp]: "gameState (spawnEnvelopes3D st) = gameState st"
  by (simp add: spawnEnvelopes3D_def Math_random_def Let_def)

lemma available_div: "available g = (exploded g - consumed g) div 5"
  using floor_divide_of_int_eq [of "exploded g - consumed g" 5, where ?'a = real]
  by (simp add: available_def)

lemma gameState_trySpawnEnvelopes:
  "gameState (trySpawnEnvelopes st) =
     (if available (gameState st) < 1 then gameState st
      else (gameState st)\<lparr>consumed := consumed (gameState st) + 5\<rparr>)"
  by (simp add: trySpawnEnvelopes_def)

lemma perform_keeps_budget:
  assumes "consumed (gameState st) \<le> exploded (gameState st)"
  shows "consumed (gameState (perform a st)) \<le> exploded (gameState (perform a st))"
proof (cases a)
  case (Detonate pos c)
  then show ?thesis using assms by simp
next
  case TrySpawn
  show ?thesis
  proof (cases "available (gameState st) < 1")
    case True
    then show ?thesis using assms TrySpawn by (simp add: gameState_trySpawnEnvelopes)
  next
    case False
    then have "5 \<le> exploded (gameState st) - consumed (gameState st)"
      by (simp add: available_div)
    then show ?thesis using False TrySpawn by (simp add: gameState_trySpawnEnvelopes)
  qed
qed

lemma performAll_keeps_budget:
  "consumed (gameState st) \<le> exploded (gameState st) \<Longrightarrow>
   consumed (gameState (performAll acts st)) \<le> exploded (gameState (performAll acts st))"
  unfolding performAll_def
  by (induction acts arbitrary: st) (simp_all add: perform_keeps_budget)

lemma spawnEnvelopes3D_alive: "envelopes st \<noteq> [] \<Longrightarrow> spawnEnvelopes3D st = st"
  by (simp add: spawnEnvelopes3D_def)

section \<open>The spawn scheduler\<close>

lemma spawnProjectile_effect:
  "sceneRef st \<Longrightarrow>
   drawn (spawnProjectile st) = drawn st + 4 \<and> random (spawnProjectile st) = random st \<and>
   handDataRef (spawnProjectile st) = handDataRef st \<and>
   length (projectiles (spawnProjectile st)) = length (projectiles st) + 1"
  by (simp add: spawnProjectile_def Math_random_def Let_def)

lemma clamp_speed: "min (max v 0 / 4) 1 = clamp (v / 4) 0 1"
  by (auto simp add: clamp_def min_def max_def)

section \<open>Coins\<close>

lemma spawnCoin_effect:
  "coinsRef (spawnCoin pos st) = coinsRef st @ [last (coinsRef (spawnCoin pos st))] \<and>
   gameState (spawnCoin pos st) = gameState st \<and>
   projectiles (spawnCoin pos st) = projectiles st \<and>
   envelopes (spawnCoin pos st) = envelopes st"
  by (simp add: spawnCoin_def Math_random_def Let_def)

lemma spawnCoinLoop_effect:
  "take (length (coinsRef st)) (coinsRef (spawnCoinLoop n pos st)) = coinsRef st \<and>
   length (coinsRef (spawnCoinLoop n pos st)) = length (coinsRef st) + n \<and>
   gameState (spawnCoinLoop n pos st) = gameState st \<and>
   projectiles (spawnCoinLoop n pos st) = projectiles st \<and>
   envelopes (spawnCoinLoop n pos st) = envelopes st"
proof (induction n arbitrary: st)
  case 0
  show ?case by simp
next
  case (Suc n)
  let ?s = "spawnCoin pos st"
  obtain c where c: "coinsRef ?s = coinsRef st @ [c]"
    using spawnCoin_effect [of pos st] by blast
  have "take (length (coinsRef st)) (coinsRef (spawnCoinLoop n pos ?s)) =
      take (length (coinsRef st)) (take (length (coinsRef ?s)) (coinsRef (spawnCoinLoop n pos ?s)))"
    by (simp add: c min_def)
  also have "\<dots> = coinsRef st" using Suc.IH [of ?s] by (simp add: c)
  finally show ?case
    using Suc.IH [of ?s] spawnCoin_effect [of pos st] by (simp add: c)
qed

lemma coinCount_base:
  fixes r :: real
  assumes "0 \<le> r \<and> r < 1"
  shows "3 \<le> nat \<lfloor>r * 8\<rfloor> + 3 \<and> nat \<lfloor>r * 8\<rfloor> + 3 \<le> 10"
proof -
  have "\<lfloor>r * 8\<rfloor> < 8" using assms by (simp add: floor_less_iff)
  then have "nat \<lfloor>r * 8\<rfloor> \<le> 7" by linarith
  then show ?thesis by simp
qed

lemma coinCount_ge: "3 \<le> coinCount r g"
  by (simp add: coinCount_def Let_def)

lemma spawnCoins_effect:
  assumes "sceneRef st"
  shows "take (length (coinsRef st)) (coinsRef (spawnCoins pos g st)) = coinsRef st \<and>
     length (coinsRef (spawnCoins pos g st)) =
       length (coinsRef st) + coinCount (random st (drawn st)) g \<and>
     gameState (spawnCoins pos g st) =
       (gameState st)\<lparr>coins := coins (gameState st)
          + int (coinCount (random st (drawn st)) g) * coinValue g\<rparr> \<and>
     projectiles (spawnCoins pos g st) = projectiles st \<and>
     envelopes (spawnCoins pos g st) = envelopes st \<and>
     sceneRef (spawnCoins pos g st)"
proof -
  have "sceneRef (spawnCoins pos g st) = sceneRef st"
    using frameOf_spawnCoins [of pos g st] by (simp add: frameOf_def)
  then show ?thesis
    using assms
      spawnCoinLoop_effect [of "st\<lparr>drawn := Suc (drawn st),
        gameState := (gameState st)\<lparr>coins := coins (gameState st)
          + int (coinCount (random st (drawn st)) g) * coinValue g\<rparr>,
        statsDirty := True\<rparr>" "coinCount (random st (drawn st)) g" pos]
    by (simp add: spawnCoins_def Math_random_def Let_def)
qed

section \<open>Detonating the visible projectiles, converting the envelopes\<close>

lemma createExplosion_entities:
  "projectiles (createExplosion pos c st) = projectiles st \<and>
   envelopes (createExplosion pos c st) = envelopes st \<and>
   coinsRef (createExplosion pos c st) = coinsRef st"
  using entitiesOf_createExplosion [of pos c st] by (simp add: entitiesOf_def)

lemma splice1_take_drop:
  "n \<le> length xs \<Longrightarrow> take n (splice1 n xs) = take n xs"
  "n \<le> length xs \<Longrightarrow> drop n (splice1 n xs) = drop (Suc n) xs"
  "n < length xs \<Longrightarrow> length (splice1 n xs) = length xs - 1"
  by (simp_all add: splice1_def)

lemma explodeVisibleLoop_effect:
  "n \<le> length (projectiles st) \<Longrightarrow>
   projectiles (explodeVisibleLoop cam n st) =
     filter (\<lambda>p. \<not> visible cam p) (take n (projectiles st)) @ drop n (projectiles st) \<and>
   gameState (explodeVisibleLoop cam n st) =
     (gameState st)\<lparr>exploded := exploded (gameState st)
        + int (length (filter (visible cam) (take n (projectiles st))))\<rparr> \<and>
   envelopes (explodeVisibleLoop cam n st) = envelopes st \<and>
   coinsRef (explodeVisibleLoop cam n st) = coinsRef st"
proof (induction n arbitrary: st)
  case 0
  show ?case by simp
next
  case (Suc n)
  let ?ps = "projectiles st"
  let ?p = "?ps ! n"
  have n: "n < length ?ps" using Suc.prems by simp
  have tk: "take (Suc n) ?ps = take n ?ps @ [?p]"
    using n by (simp add: take_Suc_conv_app_nth)
  show ?case
  proof (cases "visible cam ?p")
    case True
    let ?e = "createExplosion (proj_position ?p) (proj_color ?p) st"
    let ?s = "?e\<lparr>projectiles := splice1 n (projectiles ?e)\<rparr>"
    have ps: "projectiles ?s = splice1 n ?ps"
      by (simp add: createExplosion_entities)
    have le: "n \<le> length (projectiles ?s)" using n by (simp add: ps splice1_take_drop)
    have step: "explodeVisibleLoop cam (Suc n) st = explodeVisibleLoop cam n ?s"
      using True by (simp add: Let_def visible_def)
    have le': "n \<le> length ?ps" using n by simp
    show ?thesis
      unfolding step
      using Suc.IH [OF le] True
      by (simp add: splice1_take_drop(1,2) [OF le'] tk createExplosion_entities)
  next
    case False
    have step: "explodeVisibleLoop cam (Suc n) st = explodeVisibleLoop cam n st"
      using False by (simp add: Let_def visible_def)
    have le: "n \<le> length ?ps" using n by simp
    show ?thesis
      unfolding step
      using Suc.IH [OF le] False n
      by (simp add: tk Cons_nth_drop_Suc)
  qed
qed

lemma explodeVisibleProjectiles_effect:
  assumes "sceneRef st" and "cameraRef st = Some cam"
  shows "projectiles (explodeVisibleProjectiles st) =
           filter (\<lambda>p. \<not> visible cam p) (projectiles st) \<and>
         gameState (explodeVisibleProjectiles st) =
           (gameState st)\<lparr>exploded := exploded (gameState st)
              + int (length (filter (visible cam) (projectiles st)))\<rparr> \<and>
         envelopes (explodeVisibleProjectiles st) = envelopes st \<and>
         coinsRef (explodeVisibleProjectiles st) = coinsRef st"
  using assms explodeVisibleLoop_effect [of "length (projectiles st)" st cam]
  by (simp add: explodeVisibleProjectiles_def)

lemma convertEnvelopes_effect:
  "sceneRef st \<Longrightarrow>
   projectiles (convertEnvelopes es st) = projectiles st \<and>
   envelopes (convertEnvelopes es st) = envelopes st \<and>
   exploded (gameState (convertEnvelopes es st)) = exploded (gameState st) \<and>
   consumed (gameState (convertEnvelopes es st)) = consumed (gameState st) \<and>
   length (coinsRef st) + 3 * length es \<le> length (coinsRef (convertEnvelopes es st)) \<and>
   coins (gameState st) + 3 * int (length es) \<le> coins (gameState (convertEnvelopes es st))"
proof (induction es arbitrary: st)
  case Nil
  show ?case by simp
next
  case (Cons e es)
  let ?s = "spawnCoins (env_position e) (isGolden e) st"
  note c = spawnCoins_effect [OF Cons.prems, of "env_position e" "isGolden e"]
  have s: "sceneRef ?s" using c by simp
  have n: "3 \<le> coinCount (random st (drawn st)) (isGolden e)" by (rule coinCount_ge)
  have v: "1 \<le> coinValue (isGolden e)" by (simp add: coinValue_def)
  have "3 * 1 \<le> int (coinCount (random st (drawn st)) (isGolden e)) * coinValue (isGolden e)"
    using n v by (intro mult_mono) simp_all
  then show ?case
    using Cons.IH [OF s] c n by simp
qed

lemma explodeEnvelopes_effect:
  assumes "sceneRef st"
  shows "envelopes (explodeEnvelopes st) = [] \<and>
         projectiles (explodeEnvelopes st) = projectiles st \<and>
         exploded (gameState (explodeEnvelopes st)) = exploded (gameState st) \<and>
         consumed (gameState (explodeEnvelopes st)) = consumed (gameState st) \<and>
         length (coinsRef st) + 3 * length (envelopes st) \<le> length (coinsRef (explodeEnvelopes st)) \<and>
         coins (gameState st) + 3 * int (length (envelopes st))
           \<le> coins (gameState (explodeEnvelopes st))"
  using convertEnvelopes_effect [OF assms, of "envelopes st"] assms
  by (simp add: explodeEnvelopes_def)

section \<open>The sizes and the saturation of the particle pool\<close>

lemma pool_sizes_applyFrame:
  "length (particlesData (applyFrame f st)) = length (particlesData st)"
proof -
  obtain t h a where f: "f = (t, h, a)" by (cases f)
  have "length (particlesData (loop t s)) = length (particlesData s)" for s
    using frameOf_loop [of t s] by (simp add: frameOf_def gestureDebounce_def split: if_splits)
  moreover have "length (particlesData (syncProps h a st)) = length (particlesData st)"
    using frameOf_syncProps [of h a st] by (simp add: frameOf_def)
  ultimately show ?thesis by (simp add: f)
qed

lemma pool_sizes_run: "length (particlesData (run fs st)) = length (particlesData st)"
  by (induction fs arbitrary: st) (simp_all add: pool_sizes_applyFrame)

lemma findInactive_saturated:
  "\<forall>j<MAX_PARTICLES. active (pd ! j) \<Longrightarrow> findInactive pd start i = None"
proof (induction pd start i rule: findInactive.induct)
  case (1 pd start i)
  show ?case
  proof (cases "i < MAX_PARTICLES")
    case True
    have m: "(start + i) mod MAX_PARTICLES < MAX_PARTICLES"
      by (simp add: MAX_PARTICLES_def)
    have a: "active (pd ! ((start + i) mod MAX_PARTICLES))" using "1.prems" m by blast
    have "findInactive pd start i = findInactive pd start (i + 1)"
      using True a by (subst findInactive.simps) (simp add: Let_def)
    also have "\<dots> = None" using "1.IH" [OF True refl] a "1.prems" by simp
    finally show ?thesis .
  next
    case False
    then show ?thesis by (subst findInactive.simps) simp
  qed
qed

lemma spawnParticle_saturated:
  assumes "\<forall>j<MAX_PARTICLES. active (particlesData st ! j)"
  shows "spawnParticle pos c vel l d s st = st\<lparr>drawn := Suc (drawn st)\<rparr>"
  using findInactive_saturated [of "particlesData st"] assms
  by (simp add: spawnParticle_def Math_random_def Let_def)

section \<open>The burst of an explosion\<close>

lemma spawnParticle_drawn [simp]:
  "drawn (spawnParticle pos c vel l d s st) = Suc (drawn st)"
  by (simp add: spawnParticle_def Math_random_def Let_def split: option.split)

lemma frameOf_THREE_random:
  "frameOf a = frameOf b \<Longrightarrow> THREE a = THREE b \<and> random a = random b"
  by (simp add: frameOf_def)

lemma burstParticle_request:
  "burstParticle pos c st =
     request (burstRequest (THREE st) (random st) (drawn st) pos c) (st\<lparr>drawn := drawn st + 7\<rparr>)"
  by (simp add: burstParticle_def request_def burstRequest_def Math_random_def Let_def
      eval_nat_numeral)

lemma burstLoop_requests:
  assumes "THREE s = lib" and "random s = rnd" and "drawn s = d + 8 * j"
  shows "burstLoop n pos c s =
     foldl (\<lambda>s' k. request (burstRequest lib rnd (d + 8 * k) pos c) (s'\<lparr>drawn := d + 8 * k + 7\<rparr>))
       s [j..<j + n]"
  using assms
proof (induction n arbitrary: s j)
  case 0
  show ?case by simp
next
  case (Suc n)
  let ?s = "burstParticle pos c s"
  have bp: "?s = request (burstRequest lib rnd (d + 8 * j) pos c) (s\<lparr>drawn := d + 8 * j + 7\<rparr>)"
    by (simp add: burstParticle_request Suc.prems)
  have tr: "THREE ?s = lib" "random ?s = rnd"
    using frameOf_THREE_random [OF frameOf_burstParticle [of pos c s]] Suc.prems by simp_all
  have dr: "drawn ?s = d + 8 * Suc j"
    by (simp add: bp request_def)
  have up: "[j..<j + Suc n] = j # [Suc j..<Suc j + n]"
    by (simp add: upt_rec)
  show ?case
    using Suc.IH [OF tr dr] by (simp only: burstLoop.simps up foldl_Cons bp)
qed

lemma burstSpeed_range: "0 \<le> r \<and> r < 1 \<Longrightarrow> 0.2 \<le> burstSpeed r \<and> burstSpeed r \<le> 0.5"
  by (simp add: burstSpeed_def)

lemma sphere_norm:
  fixes s a b c e :: real
  assumes "a\<^sup>2 + b\<^sup>2 = 1" and "c\<^sup>2 + e\<^sup>2 = 1"
  shows "(s * a * c)\<^sup>2 + (s * a * e)\<^sup>2 + (s * b)\<^sup>2 = s\<^sup>2"
proof -
  have "(s * a * c)\<^sup>2 + (s * a * e)\<^sup>2 + (s * b)\<^sup>2
      = s\<^sup>2 * (a\<^sup>2 * (c\<^sup>2 + e\<^sup>2) + b\<^sup>2)"
    by (simp add: power2_eq_square algebra_simps)
  also have "\<dots> = s\<^sup>2" by (simp add: assms)
  finally show ?thesis .
qed

lemma norm3_burstVelocity:
  assumes "0 \<le> r"
  shows "norm3 (burstVelocity u v r) = burstSpeed r"
proof -
  have "(burstSpeed r * sin (arccos (2 * v - 1)) * cos (2 * pi * u))\<^sup>2
      + (burstSpeed r * sin (arccos (2 * v - 1)) * sin (2 * pi * u))\<^sup>2
      + (burstSpeed r * cos (arccos (2 * v - 1)))\<^sup>2 = (burstSpeed r)\<^sup>2"
    by (rule sphere_norm) (rule sin_cos_squared_add, rule sin_cos_squared_add2)
  then have "norm3 (burstVelocity u v r) = sqrt ((burstSpeed r)\<^sup>2)"
    unfolding norm3_def burstVelocity_def Let_def Vector3.sel by (rule arg_cong)
  moreover have "0 \<le> burstSpeed r" using assms by (simp add: burstSpeed_def)
  ultimately show ?thesis by simp
qed

lemma vz_burstVelocity:
  assumes "0 \<le> v \<and> v < 1"
  shows "vz (burstVelocity u v r) = burstSpeed r * (2 * v - 1)"
proof -
  have "cos (arccos (2 * v - 1)) = 2 * v - 1"
    using assms by (intro cos_arccos) simp_all
  then show ?thesis by (simp add: burstVelocity_def Let_def)
qed

section \<open>Renders of the session controller\<close>


lemma cooldownEffect_keeps:
  "app_gameState (cooldownEffect cur p) = app_gameState p"
  "handData (cooldownEffect cur p) = handData p"
  by (simp_all add: cooldownEffect_def)

































section \<open>The claims\<close>

subsection \<open>C1: the gesture stabilizer\<close>

text \<open>
  Claim C1. Frames are played by \<open>run\<close> on a mounted scene, whatever the session flag
  of each frame is. First part: let the raw gesture of frame \<open>f0\<close> be \<open>v\<close>, different from
  the pending gesture, and let the six frames \<open>fs\<close> that follow hold \<open>v\<close>. Then the stable
  gesture is still the old one after \<open>f0\<close> and after each of the first five held frames
  (\<open>k < 6\<close> of them), and it is \<open>v\<close> after the sixth. The frame \<open>f0\<close> on which the signal
  changes resets the count to 0 and is not one of the six. Second part: when the raw
  gestures of successive frames \<open>gs\<close> always differ (as they do when the signal alternates
  between two values) and the count starts below 5, the stable gesture is the same after
  every prefix of \<open>gs\<close>.
\<close>

theorem gesture_stabilizer_debounce:
  assumes "mounted st"
  shows "(frameGesture f0 = v \<and> v \<noteq> pendingGesture st \<and> length fs = 6 \<and>
          (\<forall>f\<in>set fs. frameGesture f = v) \<longrightarrow>
            (\<forall>k<6. stableGesture (run (f0 # take k fs) st) = stableGesture st) \<and>
            stableGesture (run (f0 # fs) st) = v) \<and>
         (distinct_adj (map frameGesture gs) \<and> gestureFrameCount st < 5 \<longrightarrow>
            (\<forall>n. stableGesture (run (take n gs) st) = stableGesture st))"
proof (intro conjI impI allI)
  fix k :: nat
  assume h: "frameGesture f0 = v \<and> v \<noteq> pendingGesture st \<and> length fs = 6 \<and>
          (\<forall>f\<in>set fs. frameGesture f = v)"
  assume k: "k < 6"
  let ?s = "applyFrame f0 st"
  note g = applyFrame_gesture [OF assms, of f0]
  have c: "gestureFrameCount ?s = 0" using g(3) h by simp
  have s: "stableGesture ?s = stableGesture st" using g(4) c by simp
  have p: "pendingGesture ?s = v" using g(2) h by simp
  have "\<forall>f\<in>set (take k fs). frameGesture f = v"
    using h by (auto dest: in_set_takeD)
  from run_held [OF g(1) p this] c s k h
  show "stableGesture (run (f0 # take k fs) st) = stableGesture st" by simp
next
  assume h: "frameGesture f0 = v \<and> v \<noteq> pendingGesture st \<and> length fs = 6 \<and>
          (\<forall>f\<in>set fs. frameGesture f = v)"
  let ?s = "applyFrame f0 st"
  note g = applyFrame_gesture [OF assms, of f0]
  have c: "gestureFrameCount ?s = 0" using g(3) h by simp
  have p: "pendingGesture ?s = v" using g(2) h by simp
  have a: "\<forall>f\<in>set fs. frameGesture f = v" using h by simp
  from run_held [OF g(1) p a] c h
  show "stableGesture (run (f0 # fs) st) = v" by auto
next
  fix n :: nat
  assume h: "distinct_adj (map frameGesture gs) \<and> gestureFrameCount st < 5"
  have "distinct_adj (map frameGesture (take n gs) @ map frameGesture (drop n gs))"
    using h by (simp flip: map_append)
  then have d: "distinct_adj (map frameGesture (take n gs))"
    by (rule distinct_adj_appendD1)
  show "stableGesture (run (take n gs) st) = stableGesture st"
    by (rule run_alternating [OF assms d]) (simp add: h)
qed

text \<open>
  On the concrete scene: a Victory signal from the first frame on leaves the stable gesture
  at \<open>None\<close> after the change frame and five more, turns it to Victory at the sixth, and a
  signal alternating between Victory and Open_Palm leaves it at \<open>None\<close>.
\<close>

theorem gesture_stabilizer_debounce_witness:
  "stableGesture demoScene = Gesture_None \<and>
   stableGesture (run (demoFrame Victory # replicate 5 (demoFrame Victory)) demoScene) = Gesture_None \<and>
   stableGesture (run (demoFrame Victory # replicate 6 (demoFrame Victory)) demoScene) = Victory \<and>
   stableGesture
     (run [demoFrame Victory, demoFrame Open_Palm, demoFrame Victory, demoFrame Open_Palm]
        demoScene) = Gesture_None"
proof -
  have g: "frameGesture (demoFrame x) = x" for x
    by (simp add: frameGesture_def demoFrame_def demoHand_def)
  have i: "pendingGesture demoScene = Gesture_None" "gestureFrameCount demoScene = 0"
    "stableGesture demoScene = Gesture_None"
    by (simp_all add: demoScene_def initScene_def)
  note t = gesture_stabilizer_debounce [OF mounted_demoScene, of "demoFrame Victory" Victory
      "replicate 6 (demoFrame Victory)"
      "[demoFrame Victory, demoFrame Open_Palm, demoFrame Victory, demoFrame Open_Palm]"]
  have h1: "frameGesture (demoFrame Victory) = Victory \<and> Victory \<noteq> pendingGesture demoScene \<and>
      length (replicate 6 (demoFrame Victory)) = 6 \<and>
      (\<forall>f\<in>set (replicate 6 (demoFrame Victory)). frameGesture f = Victory)"
    by (simp add: g i)
  have h2: "distinct_adj (map frameGesture
      [demoFrame Victory, demoFrame Open_Palm, demoFrame Victory, demoFrame Open_Palm]) \<and>
      gestureFrameCount demoScene < 5"
    by (simp add: g i)
  from t h1 have a: "\<forall>k<6. stableGesture
      (run (demoFrame Victory # take k (replicate 6 (demoFrame Victory))) demoScene) =
      stableGesture demoScene"
    and b: "stableGesture (run (demoFrame Victory # replicate 6 (demoFrame Victory)) demoScene) = Victory"
    by blast+
  from t h2 have c: "\<forall>n. stableGesture
     (run (take n [demoFrame Victory, demoFrame Open_Palm, demoFrame Victory, demoFrame Open_Palm])
        demoScene) = stableGesture demoScene"
    by blast
  show ?thesis
    using a [rule_format, of 5] b c [rule_format, of 4] by (simp add: i)
qed

subsection \<open>C2: charges are never negative\<close>

text \<open>
  Claim C2. From the reset that starts a session (\<open>syncGameActive True\<close>, which sets the
  three counters to 0), after any sequence of detonations and envelope-spawn attempts,
  \<open>consumed\<close> does not exceed \<open>exploded\<close>, and the charges
  \<open>floor((exploded - consumed) / 5)\<close> that \<^verbatim>\<open>trySpawnEnvelopes\<close> computes are not negative;
  they are the integer quotient of the difference by 5.
\<close>

theorem charges_never_negative:
  "consumed (gameState (performAll acts (syncGameActive True st)))
     \<le> exploded (gameState (performAll acts (syncGameActive True st))) \<and>
   0 \<le> available (gameState (performAll acts (syncGameActive True st))) \<and>
   available (gameState (performAll acts (syncGameActive True st))) =
     (exploded (gameState (performAll acts (syncGameActive True st)))
      - consumed (gameState (performAll acts (syncGameActive True st)))) div 5"
proof -
  have "consumed (gameState (syncGameActive True st)) \<le> exploded (gameState (syncGameActive True st))"
    by (simp add: syncGameActive_def zeroStats_def)
  from performAll_keeps_budget [OF this, of acts]
  show ?thesis by (simp add: available_div)
qed

subsection \<open>C3: spawning envelopes while a batch is alive\<close>

text \<open>
  Claim C3 says that \<^verbatim>\<open>trySpawnEnvelopes\<close> changes neither the envelopes nor the counters
  while an envelope is alive. The debit of 5 comes before the single-batch test of
  \<^verbatim>\<open>spawnEnvelopes3D\<close>: on a scene with one live envelope, 10 explosions and 5 consumed,
  \<open>consumed\<close> becomes 10.
\<close>

theorem trySpawnEnvelopes_alive_counterexample:
  "envelopes aliveScene \<noteq> [] \<and>
   consumed (gameState aliveScene) = 5 \<and>
   consumed (gameState (trySpawnEnvelopes aliveScene)) = 10 \<and>
   gameState (trySpawnEnvelopes aliveScene) \<noteq> gameState aliveScene"
  by (simp add: aliveScene_def gameState_trySpawnEnvelopes available_def)

text \<open>
  Claim C3 as amended. While an envelope is alive, \<^verbatim>\<open>trySpawnEnvelopes\<close> leaves the
  envelopes, the projectiles, the coins, the particle pool and the counters \<open>exploded\<close>
  and \<open>coins\<close> unchanged; \<open>consumed\<close> is unchanged when there is no charge and grows by 5
  when there is one.
\<close>

theorem trySpawnEnvelopes_alive:
  assumes "envelopes st \<noteq> []"
  shows "envelopes (trySpawnEnvelopes st) = envelopes st \<and>
         projectiles (trySpawnEnvelopes st) = projectiles st \<and>
         coinsRef (trySpawnEnvelopes st) = coinsRef st \<and>
         particlesData (trySpawnEnvelopes st) = particlesData st \<and>
         exploded (gameState (trySpawnEnvelopes st)) = exploded (gameState st) \<and>
         coins (gameState (trySpawnEnvelopes st)) = coins (gameState st) \<and>
         consumed (gameState (trySpawnEnvelopes st)) =
           (if available (gameState st) < 1 then consumed (gameState st)
            else consumed (gameState st) + 5)"
  using assms by (simp add: trySpawnEnvelopes_def spawnEnvelopes3D_alive)

theorem trySpawnEnvelopes_alive_witness:
  "envelopes (trySpawnEnvelopes aliveScene) = envelopes aliveScene \<and>
   exploded (gameState (trySpawnEnvelopes aliveScene)) = 10 \<and>
   coins (gameState (trySpawnEnvelopes aliveScene)) = 0 \<and>
   consumed (gameState (trySpawnEnvelopes aliveScene)) = consumed (gameState aliveScene) + 5"
proof -
  have e: "envelopes aliveScene \<noteq> []" by (simp add: aliveScene_def)
  have a: "available (gameState aliveScene) = 1" by (simp add: aliveScene_def available_def)
  show ?thesis
    using trySpawnEnvelopes_alive [OF e] a by (simp add: aliveScene_def)
qed

subsection \<open>C4: the capacity of the particle pool\<close>

text \<open>
  Claim C4. Let the pool have its \<open>MAX_PARTICLES = 4000\<close> slots, as the mount effect builds
  it. After any list of frames the number of active slots is at most \<open>MAX_PARTICLES\<close>.
  When every slot is active, a call of \<^verbatim>\<open>spawnParticle\<close> leaves the slot records (active
  flag, life, velocity, decay, initial size) and the position, colour and size buffers as
  they are.
\<close>

theorem particle_pool_capacity:
  assumes "length (particlesData st) = MAX_PARTICLES"
  shows "MAX_PARTICLES = 4000 \<and>
         length (filter active (particlesData (run fs st))) \<le> MAX_PARTICLES \<and>
         ((\<forall>p\<in>set (particlesData st). active p) \<longrightarrow>
            particlesData (spawnParticle pos c vel l d s st) = particlesData st \<and>
            particlePositions (spawnParticle pos c vel l d s st) = particlePositions st \<and>
            particleColors (spawnParticle pos c vel l d s st) = particleColors st \<and>
            particleSizes (spawnParticle pos c vel l d s st) = particleSizes st)"
proof (intro conjI impI)
  show "MAX_PARTICLES = 4000" by (simp add: MAX_PARTICLES_def)
next
  have "length (filter active (particlesData (run fs st))) \<le> length (particlesData (run fs st))"
    by (rule length_filter_le)
  then show "length (filter active (particlesData (run fs st))) \<le> MAX_PARTICLES"
    by (simp add: pool_sizes_run assms)
next
  assume all: "\<forall>p\<in>set (particlesData st). active p"
  have sat: "\<forall>j<MAX_PARTICLES. active (particlesData st ! j)"
    using all assms by (simp add: all_set_conv_all_nth)
  note e = spawnParticle_saturated [OF sat, of pos c vel l d s]
  show "particlesData (spawnParticle pos c vel l d s st) = particlesData st"
    and "particlePositions (spawnParticle pos c vel l d s st) = particlePositions st"
    and "particleColors (spawnParticle pos c vel l d s st) = particleColors st"
    and "particleSizes (spawnParticle pos c vel l d s st) = particleSizes st"
    by (simp_all add: e)
qed

text \<open>On the saturated scene, a frame and a spawn request.\<close>

theorem particle_pool_capacity_witness:
  "length (filter active (particlesData (run [demoFrame Victory] fullScene))) \<le> 4000 \<and>
   particlesData (spawnParticle (Vector3 0 0 0) 65535 (Vector3 0 1 0) 1 0.01 3 fullScene)
     = particlesData fullScene \<and>
   particleSizes (spawnParticle (Vector3 0 0 0) 65535 (Vector3 0 1 0) 1 0.01 3 fullScene)
     = particleSizes fullScene"
proof -
  have a: "length (particlesData fullScene) = MAX_PARTICLES"
    by (simp add: fullScene_def)
  have b: "\<forall>p\<in>set (particlesData fullScene). active p"
    by (simp add: fullScene_def)
  show ?thesis
    using particle_pool_capacity [OF a, of "[demoFrame Victory]" "Vector3 0 0 0" 65535
        "Vector3 0 1 0" 1 "0.01" 3] b
    by (simp add: MAX_PARTICLES_def)
qed

subsection \<open>C5: the delay of the spawn scheduler\<close>

text \<open>
  Claim C5 as amended. On a frame in which the scheduler launches a projectile (the
  session is active, the time has passed \<open>nextSpawnTime\<close>, the scene exists), the base delay
  is \<open>u * (2000 - 666) + 666\<close> for the sample \<open>u\<close> of \<^verbatim>\<open>Math.random()\<close> drawn after the four
  samples of \<^verbatim>\<open>spawnProjectile\<close>, so it lies from 666 up to 2000; one projectile is added;
  and the delay to the next launch is the base delay times \<open>1 - 0.5 * t\<close> with
  \<open>t = clamp (velocity / 4) 0 1\<close> when the hand snapshot of this frame shows a closed fist,
  and the base delay itself when there is no hand or the snapshot shows another gesture.
  The gate is the raw gesture of the snapshot, not the stable gesture.
\<close>

theorem spawn_delay:
  assumes "isGameActiveRef st" and "nextSpawnTime st < time" and "sceneRef st"
    and "0 \<le> random st (drawn st + 4) \<and> random st (drawn st + 4) < 1"
  shows "666 \<le> random st (drawn st + 4) * (2000 - 666) + 666 \<and>
         random st (drawn st + 4) * (2000 - 666) + 666 < 2000 \<and>
         length (projectiles (spawnLogic time st)) = length (projectiles st) + 1 \<and>
         nextSpawnTime (spawnLogic time st) - time =
           (case handDataRef st of
              None \<Rightarrow> random st (drawn st + 4) * (2000 - 666) + 666
            | Some hand \<Rightarrow>
                if gesture hand = Closed_Fist then
                  (random st (drawn st + 4) * (2000 - 666) + 666)
                    * (1 - 0.5 * clamp (hand_velocity hand / 4) 0 1)
                else random st (drawn st + 4) * (2000 - 666) + 666)"
proof -
  note p = spawnProjectile_effect [OF assms(3)]
  have "nextSpawnTime (spawnLogic time st) - time =
          (case handDataRef st of
              None \<Rightarrow> random st (drawn st + 4) * (2000 - 666) + 666
            | Some hand \<Rightarrow>
                if gesture hand = Closed_Fist then
                  (random st (drawn st + 4) * (2000 - 666) + 666)
                    * (1 - 0.5 * clamp (hand_velocity hand / 4) 0 1)
                else random st (drawn st + 4) * (2000 - 666) + 666)"
    using assms(1,2) p
    by (simp add: spawnLogic_def Math_random_def Let_def clamp_speed split: option.split)
  moreover have "length (projectiles (spawnLogic time st)) = length (projectiles st) + 1"
    using assms(1,2) p by (simp add: spawnLogic_def Math_random_def Let_def)
  moreover have "666 \<le> random st (drawn st + 4) * (2000 - 666) + 666"
    using assms(4) by simp
  moreover have "random st (drawn st + 4) * (2000 - 666) + 666 < 2000"
    using assms(4) by simp
  ultimately show ?thesis by blast
qed

text \<open>
  Claim C5 as stated gates the speed-up on the stable gesture. With the stable gesture
  (before and after the debounce of the frame) a closed fist, an open palm in the snapshot
  and velocity 4, the delay is the base delay 1333, not its half; with no stable gesture
  and a closed fist in the snapshot, the delay is the half.
\<close>

theorem spawn_delay_counterexample:
  "stableGesture fistHeldScene = Closed_Fist \<and>
   activeGesture (gestureDebounce fistHeldScene) = Closed_Fist \<and>
   rawGesture fistHeldScene = Open_Palm \<and>
   nextSpawnTime (spawnLogic 1000 (gestureDebounce fistHeldScene)) - 1000 = 1333 \<and>
   (demoRandom 4 * (2000 - 666) + 666) * (1 - 0.5 * clamp (4 / 4) 0 1) = 1333 / 2 \<and>
   stableGesture fistRawScene = Gesture_None \<and>
   activeGesture (gestureDebounce fistRawScene) = Gesture_None \<and>
   rawGesture fistRawScene = Closed_Fist \<and>
   nextSpawnTime (spawnLogic 1000 (gestureDebounce fistRawScene)) - 1000 = 1333 / 2"
  by (simp add: fistHeldScene_def fistRawScene_def demoScene_def initScene_def demoHand_def
      demoRandom_def gestureDebounce_def rawGesture_def activeGesture_def spawnLogic_def
      spawnProjectile_def Math_random_def Let_def clamp_def)

theorem spawn_delay_witness:
  "nextSpawnTime (spawnLogic 1000 fistRawScene) - 1000 = 1333 / 2 \<and>
   length (projectiles (spawnLogic 1000 fistRawScene)) = 1"
proof -
  have a: "isGameActiveRef fistRawScene" "nextSpawnTime fistRawScene < 1000" "sceneRef fistRawScene"
    "0 \<le> random fistRawScene (drawn fistRawScene + 4) \<and>
     random fistRawScene (drawn fistRawScene + 4) < 1"
    by (simp_all add: fistRawScene_def demoScene_def initScene_def demoRandom_def)
  show ?thesis
    using spawn_delay [OF a]
    by (simp add: fistRawScene_def demoScene_def initScene_def demoRandom_def demoHand_def
        clamp_def)
qed

subsection \<open>C6: one detonation\<close>

text \<open>
  Claim C6. Let every sample of \<^verbatim>\<open>Math.random()\<close> lie in \<open>[0, 1)\<close>. Then
  \<^verbatim>\<open>createExplosion\<close> adds 1 to \<open>exploded\<close> and leaves the two other counters; after that
  it is the same as 60 calls of \<^verbatim>\<open>spawnParticle\<close> in a row, the \<open>k\<close>-th with the arguments
  computed from the eight samples that start at index \<open>drawn + 8 * k\<close> (seven for the
  arguments, the eighth drawn by \<^verbatim>\<open>spawnParticle\<close> itself). For each of the 60 requests,
  with \<open>u\<close>, \<open>v\<close>, \<open>r\<close> its second, third and fourth sample: the position is the one of the
  explosion; the velocity is \<open>speed * (sin phi * cos theta, sin phi * sin theta, cos phi)\<close>
  with \<open>theta = 2 * pi * u\<close>, \<open>phi = arccos (2 * v - 1)\<close> and \<open>speed = 0.2 + r * 0.3\<close>; the
  length of the velocity is \<open>speed\<close>, which lies from 0.2 to 0.5; and the cosine of the polar
  angle, the third coordinate over the length, is \<open>2 * v - 1\<close>, in \<open>[-1, 1]\<close>: the image of
  the sample \<open>v\<close> under an affine map, so as uniformly distributed as \<open>v\<close> is.
\<close>

theorem createExplosion_burst:
  assumes "\<forall>i. 0 \<le> random st i \<and> random st i < 1"
  shows "exploded (gameState (createExplosion position baseColor st)) = exploded (gameState st) + 1 \<and>
     consumed (gameState (createExplosion position baseColor st)) = consumed (gameState st) \<and>
     coins (gameState (createExplosion position baseColor st)) = coins (gameState st) \<and>
     createExplosion position baseColor st =
       foldl (\<lambda>s k. request (burstRequest (THREE st) (random st) (drawn st + 8 * k) position baseColor)
                       (s\<lparr>drawn := drawn st + 8 * k + 7\<rparr>))
         (st\<lparr>gameState := (gameState st)\<lparr>exploded := exploded (gameState st) + 1\<rparr>,
             statsDirty := True\<rparr>)
         [0..<60] \<and>
     (\<forall>k<60.
        rq_position (burstRequest (THREE st) (random st) (drawn st + 8 * k) position baseColor)
          = position \<and>
        rq_velocity (burstRequest (THREE st) (random st) (drawn st + 8 * k) position baseColor)
          = Vector3
              (burstSpeed (random st (drawn st + 8 * k + 3))
                 * sin (arccos (2 * random st (drawn st + 8 * k + 2) - 1))
                 * cos (2 * pi * random st (drawn st + 8 * k + 1)))
              (burstSpeed (random st (drawn st + 8 * k + 3))
                 * sin (arccos (2 * random st (drawn st + 8 * k + 2) - 1))
                 * sin (2 * pi * random st (drawn st + 8 * k + 1)))
              (burstSpeed (random st (drawn st + 8 * k + 3))
                 * cos (arccos (2 * random st (drawn st + 8 * k + 2) - 1))) \<and>
        norm3 (rq_velocity (burstRequest (THREE st) (random st) (drawn st + 8 * k) position baseColor))
          = burstSpeed (random st (drawn st + 8 * k + 3)) \<and>
        burstSpeed (random st (drawn st + 8 * k + 3)) = 0.2 + random st (drawn st + 8 * k + 3) * 0.3 \<and>
        0.2 \<le> burstSpeed (random st (drawn st + 8 * k + 3)) \<and>
        burstSpeed (random st (drawn st + 8 * k + 3)) \<le> 0.5 \<and>
        vz (rq_velocity (burstRequest (THREE st) (random st) (drawn st + 8 * k) position baseColor))
          / norm3 (rq_velocity (burstRequest (THREE st) (random st) (drawn st + 8 * k) position baseColor))
          = 2 * random st (drawn st + 8 * k + 2) - 1 \<and>
        - 1 \<le> 2 * random st (drawn st + 8 * k + 2) - 1 \<and>
        2 * random st (drawn st + 8 * k + 2) - 1 \<le> 1)"
proof (intro conjI allI impI)
  show "exploded (gameState (createExplosion position baseColor st)) = exploded (gameState st) + 1"
    and "consumed (gameState (createExplosion position baseColor st)) = consumed (gameState st)"
    and "coins (gameState (createExplosion position baseColor st)) = coins (gameState st)"
    by simp_all
next
  let ?s = "st\<lparr>gameState := (gameState st)\<lparr>exploded := exploded (gameState st) + 1\<rparr>,
             statsDirty := True\<rparr>"
  have "burstLoop 60 position baseColor ?s =
      foldl (\<lambda>s k. request (burstRequest (THREE st) (random st) (drawn st + 8 * k) position baseColor)
                       (s\<lparr>drawn := drawn st + 8 * k + 7\<rparr>)) ?s [0..<0 + 60]"
    by (rule burstLoop_requests) simp_all
  then show "createExplosion position baseColor st =
       foldl (\<lambda>s k. request (burstRequest (THREE st) (random st) (drawn st + 8 * k) position baseColor)
                       (s\<lparr>drawn := drawn st + 8 * k + 7\<rparr>)) ?s [0..<60]"
    by (simp add: createExplosion_def)
next
  fix k :: nat
  let ?u = "random st (drawn st + 8 * k + 1)"
  let ?v = "random st (drawn st + 8 * k + 2)"
  let ?r = "random st (drawn st + 8 * k + 3)"
  let ?q = "burstRequest (THREE st) (random st) (drawn st + 8 * k) position baseColor"
  have v: "0 \<le> ?v \<and> ?v < 1" and r: "0 \<le> ?r \<and> ?r < 1" using assms by blast+
  have vel: "rq_velocity ?q = burstVelocity ?u ?v ?r"
    by (simp add: burstRequest_def add.assoc)
  show "rq_position ?q = position" by (simp add: burstRequest_def)
  show "rq_velocity ?q = Vector3 (burstSpeed ?r * sin (arccos (2 * ?v - 1)) * cos (2 * pi * ?u))
      (burstSpeed ?r * sin (arccos (2 * ?v - 1)) * sin (2 * pi * ?u))
      (burstSpeed ?r * cos (arccos (2 * ?v - 1)))"
    by (simp add: vel burstVelocity_def Let_def)
  have n: "norm3 (rq_velocity ?q) = burstSpeed ?r"
    unfolding vel using r by (intro norm3_burstVelocity) simp
  show "norm3 (rq_velocity ?q) = burstSpeed ?r" by (rule n)
  show "burstSpeed ?r = 0.2 + ?r * 0.3" by (simp add: burstSpeed_def)
  have sp: "0.2 \<le> burstSpeed ?r \<and> burstSpeed ?r \<le> 0.5" by (rule burstSpeed_range [OF r])
  show "0.2 \<le> burstSpeed ?r" and "burstSpeed ?r \<le> 0.5" using sp by simp_all
  have "vz (rq_velocity ?q) = burstSpeed ?r * (2 * ?v - 1)"
    unfolding vel by (rule vz_burstVelocity [OF v])
  moreover have "burstSpeed ?r \<noteq> 0" using sp by simp
  ultimately show "vz (rq_velocity ?q) / norm3 (rq_velocity ?q) = 2 * ?v - 1"
    by (simp add: n)
  show "- 1 \<le> 2 * ?v - 1" and "2 * ?v - 1 \<le> 1" using v by simp_all
qed

text \<open>
  On the concrete scene every sample is 1/2: the counter goes from 0 to 1, and the first
  request has speed 0.35 and a horizontal direction.
\<close>

theorem createExplosion_burst_witness:
  "exploded (gameState (createExplosion (Vector3 0 0 0) 65535 demoScene)) = 1 \<and>
   norm3 (rq_velocity (burstRequest demoThree demoRandom 0 (Vector3 0 0 0) 65535)) = 7 / 20 \<and>
   vz (rq_velocity (burstRequest demoThree demoRandom 0 (Vector3 0 0 0) 65535))
     / norm3 (rq_velocity (burstRequest demoThree demoRandom 0 (Vector3 0 0 0) 65535)) = 0"
proof -
  have a: "\<forall>i. 0 \<le> random demoScene i \<and> random demoScene i < 1"
    by (simp add: demoScene_def initScene_def demoRandom_def)
  have d: "THREE demoScene = demoThree" "random demoScene = demoRandom" "drawn demoScene = 0"
    "exploded (gameState demoScene) = 0"
    by (simp_all add: demoScene_def initScene_def zeroStats_def)
  note t = createExplosion_burst [OF a, of "Vector3 0 0 0" 65535]
  have e: "exploded (gameState (createExplosion (Vector3 0 0 0) 65535 demoScene)) = 1"
    using t [THEN conjunct1] by (simp add: d)
  note q = t [THEN conjunct2, THEN conjunct2, THEN conjunct2, THEN conjunct2, rule_format, of 0]
  have z: "(0::nat) < 60" by simp
  let ?q = "burstRequest (THREE demoScene) (random demoScene) (drawn demoScene + 8 * 0)
      (Vector3 0 0 0) 65535"
  have n: "norm3 (rq_velocity ?q) = burstSpeed (random demoScene (drawn demoScene + 8 * 0 + 3))"
    using q [OF z] by blast
  have c: "vz (rq_velocity ?q) / norm3 (rq_velocity ?q)
      = 2 * random demoScene (drawn demoScene + 8 * 0 + 2) - 1"
    using q [OF z] by blast
  show ?thesis
    using e n c by (simp add: d demoRandom_def burstSpeed_def)
qed

subsection \<open>C7: a batch of coins\<close>

text \<open>
  Claim C7. When the scene exists and the sample \<open>r\<close> of \<^verbatim>\<open>Math.random()\<close> lies in
  \<open>[0, 1)\<close>, \<^verbatim>\<open>spawnCoins\<close> draws a base count \<open>floor(r * 8) + 3\<close> from 3 to 10, appends
  \<open>N\<close> coins to the coins where \<open>N\<close> is the base count, doubled for a golden envelope,
  and adds \<open>N * value\<close> to the counter \<open>coins\<close>, where \<open>value\<close> is 2 for a golden envelope and
  1 otherwise; the other two counters keep their values.
\<close>

theorem spawnCoins_batch:
  assumes "sceneRef st" and "0 \<le> random st (drawn st) \<and> random st (drawn st) < 1"
  shows "3 \<le> nat \<lfloor>random st (drawn st) * 8\<rfloor> + 3 \<and>
         nat \<lfloor>random st (drawn st) * 8\<rfloor> + 3 \<le> 10 \<and>
         coinCount (random st (drawn st)) golden =
           (if golden then 2 * (nat \<lfloor>random st (drawn st) * 8\<rfloor> + 3)
            else nat \<lfloor>random st (drawn st) * 8\<rfloor> + 3) \<and>
         length (coinsRef (spawnCoins position golden st)) =
           length (coinsRef st) + coinCount (random st (drawn st)) golden \<and>
         take (length (coinsRef st)) (coinsRef (spawnCoins position golden st)) = coinsRef st \<and>
         coins (gameState (spawnCoins position golden st)) =
           coins (gameState st)
             + int (coinCount (random st (drawn st)) golden) * (if golden then 2 else 1) \<and>
         exploded (gameState (spawnCoins position golden st)) = exploded (gameState st) \<and>
         consumed (gameState (spawnCoins position golden st)) = consumed (gameState st)"
  using spawnCoins_effect [OF assms(1), of position golden] coinCount_base [OF assms(2)]
  by (simp add: coinCount_def coinValue_def Let_def)

text \<open>
  On the concrete scene the sample is 1/2: a golden envelope gives 14 coins worth 28, a
  silver one 7 coins worth 7.
\<close>

theorem spawnCoins_batch_witness:
  "length (coinsRef (spawnCoins (Vector3 0 10 12) True demoScene)) = 14 \<and>
   coins (gameState (spawnCoins (Vector3 0 10 12) True demoScene)) = 28 \<and>
   length (coinsRef (spawnCoins (Vector3 0 10 12) False demoScene)) = 7 \<and>
   coins (gameState (spawnCoins (Vector3 0 10 12) False demoScene)) = 7"
proof -
  have a: "sceneRef demoScene"
    "0 \<le> random demoScene (drawn demoScene) \<and> random demoScene (drawn demoScene) < 1"
    by (simp_all add: demoScene_def initScene_def demoRandom_def)
  have r: "random demoScene (drawn demoScene) = 1 / 2" "coinsRef demoScene = []"
    "gameState demoScene = zeroStats"
    by (simp_all add: demoScene_def initScene_def demoRandom_def)
  show ?thesis
    using spawnCoins_batch [OF a, of True "Vector3 0 10 12"]
      spawnCoins_batch [OF a, of False "Vector3 0 10 12"]
    by (simp add: r coinCount_def zeroStats_def)
qed

subsection \<open>C8: the replay cooldown\<close>



subsection \<open>C9: the edge from Victory to Open_Palm\<close>

text \<open>
  Claim C9. In an active session, on a scene with its camera, when the stable gesture is
  Victory and the gesture of the frame is Open_Palm, the trigger block runs
  \<^verbatim>\<open>explodeVisibleProjectiles\<close> and then \<^verbatim>\<open>explodeEnvelopes\<close> before it stores the new
  stable gesture. Afterwards the projectiles are exactly those that fail the frustum
  test, in their order; \<open>exploded\<close> has grown by the number of projectiles that pass it;
  no envelope is left; and every envelope has added at least 3 coins to the coin list
  and at least 3 to the counter \<open>coins\<close>.
\<close>

theorem victory_to_palm_dispatch:
  assumes "isGameActiveRef st" and "stableGesture st = Victory"
    and "sceneRef st" and "cameraRef st = Some cam"
  shows "gestureTriggers Open_Palm st =
           (explodeEnvelopes (explodeVisibleProjectiles st))\<lparr>stableGesture := Open_Palm\<rparr> \<and>
         projectiles (gestureTriggers Open_Palm st) =
           filter (\<lambda>p. \<not> visible cam p) (projectiles st) \<and>
         exploded (gameState (gestureTriggers Open_Palm st)) =
           exploded (gameState st) + int (length (filter (visible cam) (projectiles st))) \<and>
         envelopes (gestureTriggers Open_Palm st) = [] \<and>
         length (coinsRef st) + 3 * length (envelopes st)
           \<le> length (coinsRef (gestureTriggers Open_Palm st)) \<and>
         coins (gameState st) + 3 * int (length (envelopes st))
           \<le> coins (gameState (gestureTriggers Open_Palm st)) \<and>
         stableGesture (gestureTriggers Open_Palm st) = Open_Palm"
proof -
  let ?v = "explodeVisibleProjectiles st"
  have g: "gestureTriggers Open_Palm st = (explodeEnvelopes ?v)\<lparr>stableGesture := Open_Palm\<rparr>"
    using assms(1,2) by (simp add: gestureTriggers_def Let_def)
  note v = explodeVisibleProjectiles_effect [OF assms(3,4)]
  have sv: "sceneRef ?v"
    using frameOf_explodeVisibleProjectiles [of st] assms(3) by (simp add: frameOf_def)
  note e = explodeEnvelopes_effect [OF sv]
  show ?thesis
    using v e by (simp add: g)
qed

text \<open>
  On the concrete scene the projectile in view is detonated, the one above the view stays,
  and the envelope is gone.
\<close>

theorem victory_to_palm_dispatch_witness:
  "map proj_id (projectiles (gestureTriggers Open_Palm victoryScene)) = [1] \<and>
   exploded (gameState (gestureTriggers Open_Palm victoryScene)) = 6 \<and>
   envelopes (gestureTriggers Open_Palm victoryScene) = [] \<and>
   3 \<le> length (coinsRef (gestureTriggers Open_Palm victoryScene)) \<and>
   3 \<le> coins (gameState (gestureTriggers Open_Palm victoryScene))"
proof -
  have a: "isGameActiveRef victoryScene" "stableGesture victoryScene = Victory"
    "sceneRef victoryScene" "cameraRef victoryScene = Some demoCamera"
    by (simp_all add: victoryScene_def demoScene_def initScene_def)
  have v: "projectiles victoryScene =
      [\<lparr>proj_id = 0, proj_position = Vector3 0 0 0, proj_velocity = Vector3 0 1 0,
        proj_color = 65535\<rparr>,
       \<lparr>proj_id = 1, proj_position = Vector3 0 30 0, proj_velocity = Vector3 0 1 0,
        proj_color = 65344\<rparr>]"
    "length (envelopes victoryScene) = 1" "coinsRef victoryScene = []"
    "gameState victoryScene = \<lparr>exploded = 5, consumed = 5, coins = 0\<rparr>"
    by (simp_all add: victoryScene_def demoScene_def initScene_def)
  show ?thesis
    using conjunct2 [OF victory_to_palm_dispatch [OF a]]
    by (simp add: v visible_def insideFrustum_def demoCamera_def)
qed

subsection \<open>C10: what the start of a session resets\<close>

text \<open>
  Claim C10. \<^verbatim>\<open>startGame\<close> sets the statistics of the controller to 0, the countdown to 30
  and the state to \<open>PLAYING\<close>, and nothing else; the prop \<^verbatim>\<open>isGameActive\<close> is then true. The
  effect of the scene on that prop sets the flag and the three counters and nothing else:
  the projectiles, the envelopes, the coins, the slot records of the particle pool (so the
  active particles) and its three buffers are as before.
\<close>

theorem session_start_resets_only_counters:
  "startGame a = a\<lparr>stats := zeroStats, timeLeft := 30, app_gameState := PLAYING\<rparr> \<and>
   stats (startGame a) = \<lparr>exploded = 0, consumed = 0, coins = 0\<rparr> \<and>
   timeLeft (startGame a) = 30 \<and>
   restartCooldown (startGame a) = restartCooldown a \<and>
   isGameActive (startGame a) \<and>
   syncGameActive True st = st\<lparr>isGameActiveRef := True, gameState := zeroStats\<rparr> \<and>
   gameState (syncGameActive True st) = \<lparr>exploded = 0, consumed = 0, coins = 0\<rparr> \<and>
   projectiles (syncGameActive True st) = projectiles st \<and>
   envelopes (syncGameActive True st) = envelopes st \<and>
   coinsRef (syncGameActive True st) = coinsRef st \<and>
   particlesData (syncGameActive True st) = particlesData st \<and>
   filter active (particlesData (syncGameActive True st)) = filter active (particlesData st) \<and>
   particlePositions (syncGameActive True st) = particlePositions st \<and>
   particleColors (syncGameActive True st) = particleColors st \<and>
   particleSizes (syncGameActive True st) = particleSizes st"
  by (simp add: startGame_def syncGameActive_def zeroStats_def isGameActive_def Let_def)

end
